theory Spec2Isabelle
  imports Complex_Main "HOL-Library.Char_ord" "HOL-Library.List_Lexorder" "HOL-Library.Option_ord"
begin

section \<open>Local Food Wastage Management System: the query and record layer of app.py\<close>

subsection \<open>The relational store\<close>

text \<open>
  The schema is not created by app.py; it is the one of section 6 of the specification:
  providers(Provider_ID PK, Name, Type, Address, City, Contact),
  receivers(Receiver_ID PK, Name, City),
  food_listings(Food_ID PK, Food_Name, Quantity, Expiry_Date, Provider_ID, Provider_Type,
  Location, Food_Type, Meal_Type, Days_To_Expiry, Quantity_Category) and
  claims(Claim_ID PK, Food_ID, Receiver_ID, Status).
  Identity columns are integers and never NULL. A column that the source guards with
  \<^verbatim>\<open>IS NOT NULL\<close>, \<^verbatim>\<open>pd.notna\<close> or \<^verbatim>\<open>or 'N/A'\<close>, and every
  referencing column, is nullable: \<open>None\<close> is SQL's NULL. The expiry date column holds NULL or
  the ISO text \<^verbatim>\<open>YYYY-MM-DD\<close> that \<^verbatim>\<open>str(exp)\<close> of line 341 writes; the model keeps the
  day number of that date (days since 1970-01-01), which orders as the text does and is
  what SQLite's date functions read from it. Whether the tables were created with the
  REFERENCES clauses of section 6 is not visible in app.py: \<open>fk_declared\<close> records it.
\<close>

datatype sqlval = Null | IntV int | TextV string

record provider =
  p_Provider_ID :: int
  p_Name :: string
  p_Type :: "string option"
  p_Address :: "string option"
  p_City :: "string option"
  p_Contact :: "string option"

record receiver =
  r_Receiver_ID :: int
  r_Name :: string
  r_City :: "string option"

record food_listing =
  f_Food_ID :: int
  f_Food_Name :: string
  f_Quantity :: int
  f_Expiry_Date :: "int option"
  f_Provider_ID :: "int option"
  f_Provider_Type :: "string option"
  f_Location :: "string option"
  f_Food_Type :: "string option"
  f_Meal_Type :: "string option"
  f_Days_To_Expiry :: int
  f_Quantity_Category :: string

record claim =
  c_Claim_ID :: int
  c_Food_ID :: "int option"
  c_Receiver_ID :: "int option"
  c_Status :: string

record database =
  fk_declared :: bool
  providers :: "provider list"
  receivers :: "receiver list"
  food_listings :: "food_listing list"
  claims :: "claim list"

datatype sql_error = OperationalError | ProgrammingError | IntegrityError

subsection \<open>Sidebar filters: the dynamic WHERE clause (lines 156 to 176)\<close>

text \<open>Python's \<^verbatim>\<open>sep.join(xs)\<close>.\<close>

fun str_join :: "string \<Rightarrow> string list \<Rightarrow> string" where
  "str_join sep [] = []"
| "str_join sep [x] = x"
| "str_join sep (x # y # ys) = x @ sep @ str_join sep (y # ys)"

text \<open>
  \<^verbatim>\<open>f"Location IN ({','.join('?' for _ in city_filter)})"\<close>: the column name is a literal
  of the source, and the selected values contribute one question mark each.
\<close>

definition in_clause :: "string \<Rightarrow> 'a list \<Rightarrow> string" where
  "in_clause col vals = col @ '' IN ('' @ str_join '','' (map (\<lambda>_. ''?'') vals) @ '')''"

text \<open>
  \<^verbatim>\<open>provider_list[provider_list["Name"].isin(provider_filter_name)]["Provider_ID"].tolist()\<close>:
  the identities of the rows of the provider frame whose name is selected, in the
  frame's order. A row of the frame is (Provider_ID, Name).
\<close>

definition prov_ids :: "(int \<times> string) list \<Rightarrow> string list \<Rightarrow> int list" where
  "prov_ids provider_list provider_filter_name =
     map fst (filter (\<lambda>row. snd row \<in> set provider_filter_name) provider_list)"

text \<open>
  The four \<^verbatim>\<open>if\<close> statements append to \<^verbatim>\<open>where_clauses\<close> and extend
  \<^verbatim>\<open>params\<close> in the source's order; a Python list is true when it is not empty.
  The result is the pair (WHERE, params).
\<close>

definition build_where ::
  "string list \<Rightarrow> string list \<Rightarrow> (int \<times> string) list \<Rightarrow> string list \<Rightarrow> string list
     \<Rightarrow> string \<times> sqlval list" where
  "build_where city_filter provider_filter_name provider_list food_type_filter meal_type_filter =
     (let where_clauses = [];
          params = [];
          (where_clauses, params) =
            (if city_filter \<noteq> []
             then (where_clauses @ [in_clause ''Location'' city_filter],
                   params @ map TextV city_filter)
             else (where_clauses, params));
          (where_clauses, params) =
            (if provider_filter_name \<noteq> []
             then (let ids = prov_ids provider_list provider_filter_name
                   in if ids \<noteq> []
                      then (where_clauses @ [in_clause ''Provider_ID'' ids],
                            params @ map IntV ids)
                      else (where_clauses, params))
             else (where_clauses, params));
          (where_clauses, params) =
            (if food_type_filter \<noteq> []
             then (where_clauses @ [in_clause ''Food_Type'' food_type_filter],
                   params @ map TextV food_type_filter)
             else (where_clauses, params));
          (where_clauses, params) =
            (if meal_type_filter \<noteq> []
             then (where_clauses @ [in_clause ''Meal_Type'' meal_type_filter],
                   params @ map TextV meal_type_filter)
             else (where_clauses, params));
          WHERE = (if where_clauses \<noteq> [] then ''WHERE '' @ str_join '' AND '' where_clauses
                   else [])
      in (WHERE, params))"

text \<open>
  Line 207, the base read of the dashboard:
  \<^verbatim>\<open>fetch_df(f"SELECT * FROM food_listings {WHERE} ORDER BY Expiry_Date", params)\<close>.
\<close>

definition food_df_sql :: "string \<Rightarrow> string" where
  "food_df_sql WHERE = ''SELECT * FROM food_listings '' @ WHERE @ '' ORDER BY Expiry_Date''"

subsection \<open>How the store reads the statements of the base read\<close>

text \<open>
  The store receives text and positional parameters. For the statements that line 207 can
  send, SQLite's reading is: split the text at blanks, accept
  \<^verbatim>\<open>SELECT * FROM food_listings [WHERE c IN (?,..) AND ..] ORDER BY Expiry_Date\<close>,
  bind the parameters to the question marks from left to right (a count that differs is a
  ProgrammingError), keep the rows on which every IN test is true, and sort by the
  expiry date, NULL first. An IN test is true when the column is not NULL and equals one
  of the bound values.
\<close>

fun split_sp :: "string \<Rightarrow> string list" where
  "split_sp [] = [[]]"
| "split_sp (c # cs) =
     (if c = CHR '' '' then [] # split_sp cs
      else (case split_sp cs of [] \<Rightarrow> [[c]] | w # ws \<Rightarrow> (c # w) # ws))"

definition sql_tokens :: "string \<Rightarrow> string list" where
  "sql_tokens s = filter (\<lambda>w. w \<noteq> []) (split_sp s)"

fun qmarks :: "string \<Rightarrow> nat option" where
  "qmarks [] = None"
| "qmarks [q] = None"
| "qmarks [q, c] = (if q = CHR ''?'' \<and> c = CHR '')'' then Some 1 else None)"
| "qmarks (q # c # rest) =
     (if q = CHR ''?'' \<and> c = CHR '','' then map_option Suc (qmarks rest) else None)"

definition in_list :: "string \<Rightarrow> nat option" where
  "in_list w = (case w of [] \<Rightarrow> None | c # rest \<Rightarrow> if c = CHR ''('' then qmarks rest else None)"

fun parse_conj :: "string list \<Rightarrow> ((string \<times> nat) list \<times> string list) option" where
  "parse_conj (col # kw # ph # rest) =
     (if kw = ''IN''
      then (case in_list ph of
              None \<Rightarrow> None
            | Some n \<Rightarrow>
                (case rest of
                   [] \<Rightarrow> Some ([(col, n)], [])
                 | a # rest' \<Rightarrow>
                     if a = ''AND''
                     then map_option (\<lambda>(cs, r). ((col, n) # cs, r)) (parse_conj rest')
                     else Some ([(col, n)], rest)))
      else None)"
| "parse_conj _ = None"

definition parse_food_select :: "string list \<Rightarrow> (string \<times> nat) list option" where
  "parse_food_select ts =
     (case ts of
        s # star # fr # tbl # rest \<Rightarrow>
          if s = ''SELECT'' \<and> star = ''*'' \<and> fr = ''FROM'' \<and> tbl = ''food_listings''
          then (case rest of
                  [] \<Rightarrow> None
                | w # rest' \<Rightarrow>
                    if w = ''WHERE''
                    then (case parse_conj rest' of
                            None \<Rightarrow> None
                          | Some (cs, trailing) \<Rightarrow>
                              if trailing = [''ORDER'', ''BY'', ''Expiry_Date''] then Some cs else None)
                    else if rest = [''ORDER'', ''BY'', ''Expiry_Date''] then Some [] else None)
          else None
      | _ \<Rightarrow> None)"

definition text_val :: "string option \<Rightarrow> sqlval" where
  "text_val v = (case v of None \<Rightarrow> Null | Some s \<Rightarrow> TextV s)"

definition int_val :: "int option \<Rightarrow> sqlval" where
  "int_val v = (case v of None \<Rightarrow> Null | Some i \<Rightarrow> IntV i)"

definition food_column :: "food_listing \<Rightarrow> string \<Rightarrow> sqlval option" where
  "food_column f col =
     (if col = ''Food_ID'' then Some (IntV (f_Food_ID f))
      else if col = ''Food_Name'' then Some (TextV (f_Food_Name f))
      else if col = ''Quantity'' then Some (IntV (f_Quantity f))
      else if col = ''Expiry_Date'' then Some (int_val (f_Expiry_Date f))
      else if col = ''Provider_ID'' then Some (int_val (f_Provider_ID f))
      else if col = ''Provider_Type'' then Some (text_val (f_Provider_Type f))
      else if col = ''Location'' then Some (text_val (f_Location f))
      else if col = ''Food_Type'' then Some (text_val (f_Food_Type f))
      else if col = ''Meal_Type'' then Some (text_val (f_Meal_Type f))
      else if col = ''Days_To_Expiry'' then Some (IntV (f_Days_To_Expiry f))
      else if col = ''Quantity_Category'' then Some (TextV (f_Quantity_Category f))
      else None)"

definition food_columns :: "string list" where
  "food_columns = [''Food_ID'', ''Food_Name'', ''Quantity'', ''Expiry_Date'', ''Provider_ID'',
     ''Provider_Type'', ''Location'', ''Food_Type'', ''Meal_Type'', ''Days_To_Expiry'',
     ''Quantity_Category'']"

definition sql_in :: "sqlval option \<Rightarrow> sqlval list \<Rightarrow> bool" where
  "sql_in v vals = (case v of None \<Rightarrow> False | Some x \<Rightarrow> x \<noteq> Null \<and> x \<in> set vals)"

fun conj_true :: "(string \<times> nat) list \<Rightarrow> sqlval list \<Rightarrow> food_listing \<Rightarrow> bool" where
  "conj_true [] ps f = True"
| "conj_true ((col, n) # cs) ps f =
     (sql_in (food_column f col) (take n ps) \<and> conj_true cs (drop n ps) f)"

definition read_sql_food ::
  "string \<Rightarrow> sqlval list \<Rightarrow> database \<Rightarrow> sql_error + food_listing list" where
  "read_sql_food sql params db =
     (case parse_food_select (sql_tokens sql) of
        None \<Rightarrow> Inl OperationalError
      | Some cs \<Rightarrow>
          if \<not> list_all (\<lambda>c. fst c \<in> set food_columns) cs then Inl OperationalError
          else if sum_list (map snd cs) \<noteq> length params then Inl ProgrammingError
          else Inr (sort_key f_Expiry_Date (filter (conj_true cs params) (food_listings db))))"

subsection \<open>The query catalog (lines 63 to 138)\<close>

text \<open>
  The queries of the catalog are fixed SQL text; each is embedded as the function from the
  database (and its parameters) to the rows SQLite returns, built from the relational
  operators below. A join pairs each left row with the right rows that satisfy the ON
  condition; a LEFT JOIN keeps a left row without a partner, paired with NULL
  (\<open>None\<close>). GROUP BY collects the rows of each key.
\<close>

definition inner_join :: "('a \<Rightarrow> 'b \<Rightarrow> bool) \<Rightarrow> 'a list \<Rightarrow> 'b list \<Rightarrow> ('a \<times> 'b) list" where
  "inner_join on xs ys = concat (map (\<lambda>x. map (\<lambda>y. (x, y)) (filter (on x) ys)) xs)"

definition left_join :: "('a \<Rightarrow> 'b \<Rightarrow> bool) \<Rightarrow> 'a list \<Rightarrow> 'b list \<Rightarrow> ('a \<times> 'b option) list" where
  "left_join on xs ys =
     concat (map (\<lambda>x. case filter (on x) ys of
                         [] \<Rightarrow> [(x, None)]
                       | m # ms \<Rightarrow> map (\<lambda>y. (x, Some y)) (m # ms)) xs)"

definition group_by :: "('r \<Rightarrow> 'k) \<Rightarrow> 'r list \<Rightarrow> ('k \<times> 'r list) list" where
  "group_by key rows = map (\<lambda>k. (k, filter (\<lambda>r. key r = k) rows)) (remdups (map key rows))"






text \<open>
  Query 10:
  \<^verbatim>\<open>SELECT p.Name, ROUND(100.0 * SUM(CASE WHEN c.Status='Completed' THEN 1 ELSE 0 END)
  / NULLIF(COUNT(DISTINCT f.Food_ID),0), 2) AS Fulfillment_Rate
  FROM providers p JOIN food_listings f ON p.Provider_ID = f.Provider_ID
  LEFT JOIN claims c ON f.Food_ID = c.Food_ID
  GROUP BY p.Provider_ID, p.Name ORDER BY Fulfillment_Rate DESC\<close>.
  The rate is computed in exact fractions where SQLite uses binary floating point;
  \<^verbatim>\<open>ROUND(x, 2)\<close> rounds to hundredths, halves away from zero. SQLite orders NULL below
  every number, so a descending order puts NULL last.
\<close>

definition sql_round2 :: "rat \<Rightarrow> rat" where
  "sql_round2 x =
     (if 0 \<le> x then of_int \<lfloor>x * 100 + 1 / 2\<rfloor> / 100 else of_int \<lceil>x * 100 - 1 / 2\<rceil> / 100)"

definition nullif0 :: "nat \<Rightarrow> nat option" where
  "nullif0 n = (if n = 0 then None else Some n)"

definition q10_joined :: "database \<Rightarrow> ((provider \<times> food_listing) \<times> claim option) list" where
  "q10_joined d =
     left_join (\<lambda>pf c. c_Food_ID c = Some (f_Food_ID (snd pf)))
       (inner_join (\<lambda>p f. f_Provider_ID f = Some (p_Provider_ID p)) (providers d) (food_listings d))
       (claims d)"

definition sum_completed :: "((provider \<times> food_listing) \<times> claim option) list \<Rightarrow> int" where
  "sum_completed g =
     sum_list (map (\<lambda>r. case snd r of
                           None \<Rightarrow> 0
                         | Some c \<Rightarrow> if c_Status c = ''Completed'' then 1 else 0) g)"

definition count_distinct_food :: "((provider \<times> food_listing) \<times> claim option) list \<Rightarrow> nat" where
  "count_distinct_food g = length (remdups (map (\<lambda>r. f_Food_ID (snd (fst r))) g))"

definition fulfillment_rate :: "((provider \<times> food_listing) \<times> claim option) list \<Rightarrow> rat option" where
  "fulfillment_rate g =
     (case nullif0 (count_distinct_food g) of
        None \<Rightarrow> None
      | Some n \<Rightarrow> Some (sql_round2 (100 * of_int (sum_completed g) / of_nat n)))"

definition query_10 :: "database \<Rightarrow> (string \<times> rat option) list" where
  "query_10 d =
     rev (sort_key snd
       (map (\<lambda>kg. (snd (fst kg), fulfillment_rate (snd kg)))
          (group_by (\<lambda>r. (p_Provider_ID (fst (fst r)), p_Name (fst (fst r)))) (q10_joined d))))"

text \<open>
  Query 14:
  \<^verbatim>\<open>SELECT p.Provider_ID, p.Name FROM providers p
  LEFT JOIN food_listings f ON p.Provider_ID = f.Provider_ID
  LEFT JOIN claims c ON f.Food_ID = c.Food_ID
  GROUP BY p.Provider_ID, p.Name HAVING COUNT(c.Claim_ID) = 0 ORDER BY p.Name\<close>.
  \<^verbatim>\<open>COUNT(c.Claim_ID)\<close> counts the rows of the group that have a claim. Text is
  compared byte by byte, which is the order of strings here.
\<close>

definition q14_joined :: "database \<Rightarrow> ((provider \<times> food_listing option) \<times> claim option) list" where
  "q14_joined d =
     left_join (\<lambda>pf c. case snd pf of None \<Rightarrow> False | Some f \<Rightarrow> c_Food_ID c = Some (f_Food_ID f))
       (left_join (\<lambda>p f. f_Provider_ID f = Some (p_Provider_ID p)) (providers d) (food_listings d))
       (claims d)"

definition query_14 :: "database \<Rightarrow> (int \<times> string) list" where
  "query_14 d =
     sort_key snd
       (map fst
          (filter (\<lambda>kg. length (filter (\<lambda>r. snd r \<noteq> None) (snd kg)) = 0)
             (group_by (\<lambda>r. (p_Provider_ID (fst (fst r)), p_Name (fst (fst r)))) (q14_joined d))))"

subsection \<open>The data access layer (lines 25 to 45)\<close>

text \<open>
  \<^verbatim>\<open>sqlite3.connect(DB_PATH, check_same_thread=False)\<close> opens a connection with SQLite's
  defaults; the only setting \<^verbatim>\<open>get_conn\<close> changes is the row factory. Enforcement of
  foreign keys is a setting of the connection, off by default, and no statement of app.py
  turns it on.
\<close>

record connection =
  foreign_keys :: bool

definition sqlite3_connect :: connection where
  "sqlite3_connect = \<lparr>foreign_keys = False\<rparr>"

text \<open>
  The state a script run works on: the database file, the connection kept in
  \<^verbatim>\<open>st.session_state\<close>, and the memo of \<^verbatim>\<open>@st.cache_data(ttl=60)\<close>, which maps the
  arguments of \<^verbatim>\<open>fetch_df\<close> to the frame it returned and the second it was stored.
\<close>

record 'df app_state =
  store :: database
  session_conn :: "connection option"
  cache :: "string \<times> sqlval list \<rightharpoonup> int \<times> 'df"

definition get_conn :: "'df app_state \<Rightarrow> connection \<times> 'df app_state" where
  "get_conn s =
     (case session_conn s of
        None \<Rightarrow> (sqlite3_connect, s\<lparr>session_conn := Some sqlite3_connect\<rparr>)
      | Some conn \<Rightarrow> (conn, s))"

text \<open>
  \<^verbatim>\<open>fetch_df\<close>: within 60 seconds of storing, the memo answers; otherwise the store is
  read through \<^verbatim>\<open>pd.read_sql_query\<close> (the parameter \<open>read_sql_query\<close>) and the answer is
  stored under the arguments.
\<close>

definition fetch_df ::
  "(string \<Rightarrow> sqlval list \<Rightarrow> database \<Rightarrow> 'df) \<Rightarrow> int \<Rightarrow> string \<Rightarrow> sqlval list \<Rightarrow> 'df app_state
     \<Rightarrow> 'df \<times> 'df app_state" where
  "fetch_df read_sql_query now sql params s =
     (let miss = (let (conn, s1) = get_conn s;
                      df = read_sql_query sql params (store s1)
                  in (df, s1\<lparr>cache := (cache s1)((sql, params) \<mapsto> (now, df))\<rparr>))
      in case cache s (sql, params) of
           None \<Rightarrow> miss
         | Some (stored, df) \<Rightarrow> if now < stored + 60 then (df, s) else miss)"

text \<open>
  The nine statements that app.py passes to \<^verbatim>\<open>run_write\<close>, each with its parameters
  in the order of the question marks.
\<close>

datatype write_stmt =
    Insert_provider string string string string string
  | Insert_food_listing string int int int string string string string int string
  | Insert_claim int int string
  | Update_provider_contact string int
  | Update_food_quantity int int
  | Update_claim_status string int
  | Delete_provider int
  | Delete_food_listing int
  | Delete_claim int

text \<open>
  Modelled from the spec: the tables are not created by app.py; section 3 says that
  primary keys are surrogate integers assigned by the store. SQLite assigns one more than
  the largest identity in the table, and 1 in an empty table.
\<close>

definition next_rowid :: "int list \<Rightarrow> int" where
  "next_rowid ids = (if ids = [] then 1 else Max (set ids) + 1)"

text \<open>
  What the store does with a statement. Foreign keys are checked only when the connection
  enforces them and the schema declares them: then a row may not be inserted with a
  reference to a missing row, and a row that is referenced may not be deleted. The result
  is the error raised, or \<^verbatim>\<open>cur.lastrowid\<close> (set by an INSERT) and the new database.
\<close>

definition enforced :: "connection \<Rightarrow> database \<Rightarrow> bool" where
  "enforced conn d = (foreign_keys conn \<and> fk_declared d)"

fun execute :: "connection \<Rightarrow> write_stmt \<Rightarrow> database \<Rightarrow> sql_error + (int option \<times> database)" where
  "execute conn (Insert_provider name ptype address city contact) d =
     (let rowid = next_rowid (map p_Provider_ID (providers d))
      in Inr (Some rowid, d\<lparr>providers := providers d @
           [\<lparr>p_Provider_ID = rowid, p_Name = name, p_Type = Some ptype, p_Address = Some address,
             p_City = Some city, p_Contact = Some contact\<rparr>]\<rparr>))"
| "execute conn (Insert_food_listing food_name qty exp_date provider_id provider_type location ftype
       mtype days_to_exp qty_category) d =
     (if enforced conn d \<and> provider_id \<notin> set (map p_Provider_ID (providers d))
      then Inl IntegrityError
      else (let rowid = next_rowid (map f_Food_ID (food_listings d))
            in Inr (Some rowid, d\<lparr>food_listings := food_listings d @
                 [\<lparr>f_Food_ID = rowid, f_Food_Name = food_name, f_Quantity = qty,
                   f_Expiry_Date = Some exp_date, f_Provider_ID = Some provider_id,
                   f_Provider_Type = Some provider_type, f_Location = Some location,
                   f_Food_Type = Some ftype, f_Meal_Type = Some mtype,
                   f_Days_To_Expiry = days_to_exp, f_Quantity_Category = qty_category\<rparr>]\<rparr>)))"
| "execute conn (Insert_claim food_id receiver_id status) d =
     (if enforced conn d \<and>
         (food_id \<notin> set (map f_Food_ID (food_listings d)) \<or>
          receiver_id \<notin> set (map r_Receiver_ID (receivers d)))
      then Inl IntegrityError
      else (let rowid = next_rowid (map c_Claim_ID (claims d))
            in Inr (Some rowid, d\<lparr>claims := claims d @
                 [\<lparr>c_Claim_ID = rowid, c_Food_ID = Some food_id, c_Receiver_ID = Some receiver_id,
                   c_Status = status\<rparr>]\<rparr>)))"
| "execute conn (Update_provider_contact new pid) d =
     Inr (None, d\<lparr>providers :=
       map (\<lambda>p. if p_Provider_ID p = pid then p\<lparr>p_Contact := Some new\<rparr> else p) (providers d)\<rparr>)"
| "execute conn (Update_food_quantity new_qty fid) d =
     Inr (None, d\<lparr>food_listings :=
       map (\<lambda>f. if f_Food_ID f = fid then f\<lparr>f_Quantity := new_qty\<rparr> else f) (food_listings d)\<rparr>)"
| "execute conn (Update_claim_status new_status claim_id) d =
     Inr (None, d\<lparr>claims :=
       map (\<lambda>c. if c_Claim_ID c = claim_id then c\<lparr>c_Status := new_status\<rparr> else c) (claims d)\<rparr>)"
| "execute conn (Delete_provider pid) d =
     (if enforced conn d \<and> pid \<in> set (map p_Provider_ID (providers d)) \<and>
         list_ex (\<lambda>f. f_Provider_ID f = Some pid) (food_listings d)
      then Inl IntegrityError
      else Inr (None, d\<lparr>providers := filter (\<lambda>p. p_Provider_ID p \<noteq> pid) (providers d)\<rparr>))"
| "execute conn (Delete_food_listing fid) d =
     (if enforced conn d \<and> fid \<in> set (map f_Food_ID (food_listings d)) \<and>
         list_ex (\<lambda>c. c_Food_ID c = Some fid) (claims d)
      then Inl IntegrityError
      else Inr (None, d\<lparr>food_listings := filter (\<lambda>f. f_Food_ID f \<noteq> fid) (food_listings d)\<rparr>))"
| "execute conn (Delete_claim cid) d =
     Inr (None, d\<lparr>claims := filter (\<lambda>c. c_Claim_ID c \<noteq> cid) (claims d)\<rparr>)"

text \<open>
  \<^verbatim>\<open>run_write\<close>: get the session's connection, execute, commit, return the row identity.
  An exception leaves the database as it was. Nothing here touches the memo.
\<close>

definition run_write :: "write_stmt \<Rightarrow> 'df app_state \<Rightarrow> (sql_error + int option) \<times> 'df app_state" where
  "run_write stmt s =
     (let (conn, s1) = get_conn s
      in case execute conn stmt (store s1) of
           Inl e \<Rightarrow> (Inl e, s1)
         | Inr (lastrowid, d) \<Rightarrow> (Inr lastrowid, s1\<lparr>store := d\<rparr>))"

subsection \<open>Derived fields of a new food listing (lines 335 and 336)\<close>

text \<open>
  \<^verbatim>\<open>qty_cat = "Small" if qty < 5 else ("Medium" if qty <= 20 else "Large")\<close>.
  The quantity comes from an integer number input, so it is a Python int.
\<close>

definition qty_cat :: "int \<Rightarrow> string" where
  "qty_cat qty = (if qty < 5 then ''Small'' else (if qty \<le> 20 then ''Medium'' else ''Large''))"

text \<open>
  \<^verbatim>\<open>days_to_exp = (pd.to_datetime(exp) - pd.Timestamp.today()).days\<close>.
  A pandas Timestamp is a count of nanoseconds; \<^verbatim>\<open>pd.to_datetime\<close> of a date is its
  midnight, \<^verbatim>\<open>pd.Timestamp.today()\<close> is the local date and time of the call, and the
  \<^verbatim>\<open>days\<close> of a Timedelta is the difference divided by one day, rounded down (a
  Timedelta of minus ten hours is "-1 days +14:00:00"). A date is its day number.
\<close>

definition ns_per_day :: int where
  "ns_per_day = 86400000000000"

definition to_datetime :: "int \<Rightarrow> int" where
  "to_datetime exp_date = exp_date * ns_per_day"

definition timedelta_days :: "int \<Rightarrow> int" where
  "timedelta_days delta = delta div ns_per_day"

definition days_to_exp :: "int \<Rightarrow> int \<Rightarrow> int" where
  "days_to_exp exp_date today = timedelta_days (to_datetime exp_date - today)"

text \<open>The calendar date of a Timestamp, \<^verbatim>\<open>date.today()\<close> at the same moment.\<close>

definition date_of :: "int \<Rightarrow> int" where
  "date_of ts = ts div ns_per_day"

subsection \<open>The record management layer (lines 288 to 477)\<close>

text \<open>
  What a handler shows: \<^verbatim>\<open>st.success\<close>, \<^verbatim>\<open>st.error\<close>, or the exception that no
  \<^verbatim>\<open>try\<close> caught and the framework displays. \<open>error_text\<close> is \<^verbatim>\<open>str(e)\<close>; a
  write raises only the IntegrityError.
\<close>

datatype ui_msg = St_success string | St_error string | Uncaught sql_error

fun error_text :: "sql_error \<Rightarrow> string" where
  "error_text IntegrityError = ''FOREIGN KEY constraint failed''"
| "error_text OperationalError = ''OperationalError''"
| "error_text ProgrammingError = ''ProgrammingError''"

text \<open>Python's truth value of an optional integer: neither None nor 0.\<close>

definition truthy :: "int option \<Rightarrow> bool" where
  "truthy v = (case v of None \<Rightarrow> False | Some i \<Rightarrow> i \<noteq> 0)"

text \<open>
  Each handler is the body run when its form is submitted or its button is pressed, on the
  values the widgets hold. \<^verbatim>\<open>st.cache_data.clear()\<close> empties the memo.
\<close>

definition add_provider ::
  "string \<Rightarrow> string \<Rightarrow> string \<Rightarrow> string \<Rightarrow> string \<Rightarrow> 'df app_state \<Rightarrow> ui_msg list \<times> 'df app_state" where
  "add_provider name ptype address city contact s =
     (if name \<noteq> [] \<and> city \<noteq> []
      then (case run_write (Insert_provider name ptype address city contact) s of
              (Inl e, s1) \<Rightarrow> ([Uncaught e], s1)
            | (Inr lastrowid, s1) \<Rightarrow>
                ([St_success (''Provider '' @ [CHR 0x27] @ name @ [CHR 0x27] @ '' added.'')],
                 s1\<lparr>cache := Map.empty\<rparr>))
      else ([St_error ''Name and City are required.''], s))"

text \<open>
  \<open>provider_id\<close> is None when the provider frame is empty; \<open>today\<close> is the value of
  \<^verbatim>\<open>pd.Timestamp.today()\<close>.
\<close>

definition add_food ::
  "string \<Rightarrow> int option \<Rightarrow> string \<Rightarrow> int \<Rightarrow> int \<Rightarrow> string \<Rightarrow> string \<Rightarrow> string \<Rightarrow> string \<Rightarrow> int
     \<Rightarrow> 'df app_state \<Rightarrow> ui_msg list \<times> 'df app_state" where
  "add_food provider provider_id food_name qty exp_date provider_type location ftype mtype today s =
     (case provider_id of
        None \<Rightarrow> ([St_error ''Provider, Food Name, and Location are required.''], s)
      | Some pid \<Rightarrow>
          if pid \<noteq> 0 \<and> food_name \<noteq> [] \<and> location \<noteq> []
          then (case run_write (Insert_food_listing food_name qty exp_date pid provider_type
                        location ftype mtype (days_to_exp exp_date today) (qty_cat qty)) s of
                  (Inl e, s1) \<Rightarrow> ([Uncaught e], s1)
                | (Inr lastrowid, s1) \<Rightarrow>
                    ([St_success (''Food '' @ [CHR 0x27] @ food_name @ [CHR 0x27] @ '' added for '' @
                        provider @ ''.'')],
                     s1\<lparr>cache := Map.empty\<rparr>))
          else ([St_error ''Provider, Food Name, and Location are required.''], s))"

definition add_claim ::
  "int option \<Rightarrow> int option \<Rightarrow> string \<Rightarrow> 'df app_state \<Rightarrow> ui_msg list \<times> 'df app_state" where
  "add_claim food_id receiver_id status s =
     (case (food_id, receiver_id) of
        (Some fid, Some rid) \<Rightarrow>
          if fid \<noteq> 0 \<and> rid \<noteq> 0
          then (case run_write (Insert_claim fid rid status) s of
                  (Inl e, s1) \<Rightarrow> ([Uncaught e], s1)
                | (Inr lastrowid, s1) \<Rightarrow> ([St_success ''Claim created.''], s1\<lparr>cache := Map.empty\<rparr>))
          else ([St_error ''Choose a food item and receiver.''], s)
      | _ \<Rightarrow> ([St_error ''Choose a food item and receiver.''], s))"

definition update_contact :: "string \<Rightarrow> int \<Rightarrow> 'df app_state \<Rightarrow> ui_msg list \<times> 'df app_state" where
  "update_contact new pid s =
     (case run_write (Update_provider_contact new pid) s of
        (Inl e, s1) \<Rightarrow> ([Uncaught e], s1)
      | (Inr lastrowid, s1) \<Rightarrow> ([St_success ''Contact updated.''], s1\<lparr>cache := Map.empty\<rparr>))"

definition update_quantity :: "int \<Rightarrow> int \<Rightarrow> 'df app_state \<Rightarrow> ui_msg list \<times> 'df app_state" where
  "update_quantity new_qty fid s =
     (case run_write (Update_food_quantity new_qty fid) s of
        (Inl e, s1) \<Rightarrow> ([Uncaught e], s1)
      | (Inr lastrowid, s1) \<Rightarrow> ([St_success ''Quantity updated.''], s1\<lparr>cache := Map.empty\<rparr>))"

definition update_status :: "string \<Rightarrow> int \<Rightarrow> 'df app_state \<Rightarrow> ui_msg list \<times> 'df app_state" where
  "update_status new_status claim_id s =
     (case run_write (Update_claim_status new_status claim_id) s of
        (Inl e, s1) \<Rightarrow> ([Uncaught e], s1)
      | (Inr lastrowid, s1) \<Rightarrow> ([St_success ''Status updated.''], s1\<lparr>cache := Map.empty\<rparr>))"

text \<open>
  Lines 441 to 447: the delete of a provider sits in a \<^verbatim>\<open>try\<close>; an exception becomes
  an \<^verbatim>\<open>st.error\<close> and the memo is left alone.
\<close>

definition delete_provider :: "int \<Rightarrow> 'df app_state \<Rightarrow> ui_msg list \<times> 'df app_state" where
  "delete_provider pid s =
     (case run_write (Delete_provider pid) s of
        (Inl e, s1) \<Rightarrow> ([St_error (''Delete failed (likely FK constraint): '' @ error_text e)], s1)
      | (Inr lastrowid, s1) \<Rightarrow> ([St_success ''Provider deleted.''], s1\<lparr>cache := Map.empty\<rparr>))"

definition delete_food :: "int \<Rightarrow> 'df app_state \<Rightarrow> ui_msg list \<times> 'df app_state" where
  "delete_food fid s =
     (case run_write (Delete_food_listing fid) s of
        (Inl e, s1) \<Rightarrow> ([St_error (''Delete failed: '' @ error_text e)], s1)
      | (Inr lastrowid, s1) \<Rightarrow> ([St_success ''Food listing deleted.''], s1\<lparr>cache := Map.empty\<rparr>))"

definition delete_claim :: "int \<Rightarrow> 'df app_state \<Rightarrow> ui_msg list \<times> 'df app_state" where
  "delete_claim cid s =
     (case run_write (Delete_claim cid) s of
        (Inl e, s1) \<Rightarrow> ([Uncaught e], s1)
      | (Inr lastrowid, s1) \<Rightarrow> ([St_success ''Claim deleted.''], s1\<lparr>cache := Map.empty\<rparr>))"

text \<open>The nine write operations of the CRUD tab, and the handler each one runs.\<close>

datatype crud_action =
    Add_provider string string string string string
  | Add_food string "int option" string int int string string string string int
  | Add_claim "int option" "int option" string
  | Update_contact string int
  | Update_quantity int int
  | Update_status string int
  | Del_provider int
  | Del_food int
  | Del_claim int

fun handle :: "crud_action \<Rightarrow> 'df app_state \<Rightarrow> ui_msg list \<times> 'df app_state" where
  "handle (Add_provider name ptype address city contact) s =
     add_provider name ptype address city contact s"
| "handle (Add_food provider provider_id food_name qty exp_date provider_type location ftype mtype
       today) s =
     add_food provider provider_id food_name qty exp_date provider_type location ftype mtype today s"
| "handle (Add_claim food_id receiver_id status) s = add_claim food_id receiver_id status s"
| "handle (Update_contact new pid) s = update_contact new pid s"
| "handle (Update_quantity new_qty fid) s = update_quantity new_qty fid s"
| "handle (Update_status new_status claim_id) s = update_status new_status claim_id s"
| "handle (Del_provider pid) s = delete_provider pid s"
| "handle (Del_food fid) s = delete_food fid s"
| "handle (Del_claim cid) s = delete_claim cid s"

subsection \<open>Notions for the claims about the filter builder\<close>

text \<open>
  What a filter dimension asks of a row: nothing when nothing is selected, otherwise that
  the row's value is not NULL and is one of the selected values.
\<close>

definition dim_pass :: "'a list \<Rightarrow> 'a option \<Rightarrow> bool" where
  "dim_pass selected v = (selected = [] \<or> (case v of None \<Rightarrow> False | Some x \<Rightarrow> x \<in> set selected))"

text \<open>
  The predicate text in the specification's words, as a function of the number of bound
  values per dimension alone: a dimension with \<open>n > 0\<close> values contributes
  \<^verbatim>\<open>column IN (?,...,?)\<close> with \<open>n\<close> question marks, the fragments are joined
  with AND, and a non-empty predicate starts with WHERE.
\<close>

definition in_fragment :: "string \<Rightarrow> nat \<Rightarrow> string list" where
  "in_fragment col n =
     (if n = 0 then [] else [col @ '' IN ('' @ str_join '','' (replicate n ''?'') @ '')''])"

definition where_text :: "nat \<Rightarrow> nat \<Rightarrow> nat \<Rightarrow> nat \<Rightarrow> string" where
  "where_text nc np nf nm =
     (let frs = in_fragment ''Location'' nc @ in_fragment ''Provider_ID'' np @
                in_fragment ''Food_Type'' nf @ in_fragment ''Meal_Type'' nm
      in if frs = [] then [] else ''WHERE '' @ str_join '' AND '' frs)"

text \<open>
  For the proofs: the clauses of the predicate as (column, bound values) pairs, the text
  they render to, and the words the store splits that text into.
\<close>

definition dim_clause :: "string \<Rightarrow> sqlval list \<Rightarrow> (string \<times> sqlval list) list" where
  "dim_clause col vals = (if vals = [] then [] else [(col, vals)])"

definition active_clauses ::
  "string list \<Rightarrow> int list \<Rightarrow> string list \<Rightarrow> string list \<Rightarrow> (string \<times> sqlval list) list" where
  "active_clauses cf ids ff mf =
     dim_clause ''Location'' (map TextV cf) @ dim_clause ''Provider_ID'' (map IntV ids) @
     dim_clause ''Food_Type'' (map TextV ff) @ dim_clause ''Meal_Type'' (map TextV mf)"

definition render_where :: "(string \<times> sqlval list) list \<Rightarrow> string" where
  "render_where cls =
     (if cls = [] then [] else ''WHERE '' @ str_join '' AND '' (map (\<lambda>c. in_clause (fst c) (snd c)) cls))"

definition ph :: "'a list \<Rightarrow> string" where
  "ph vals = CHR ''('' # str_join '','' (map (\<lambda>_. ''?'') vals) @ '')''"

definition clause_tokens :: "string \<times> 'a list \<Rightarrow> string list" where
  "clause_tokens c = [fst c, ''IN'', ph (snd c)]"

definition good_col :: "string \<Rightarrow> bool" where
  "good_col col = (col \<noteq> [] \<and> CHR '' '' \<notin> set col)"

definition order_by :: "string list" where
  "order_by = [''ORDER'', ''BY'', ''Expiry_Date'']"

text \<open>Two listings used to run the definitions on concrete data.\<close>

definition sample_food :: food_listing where
  "sample_food = \<lparr>f_Food_ID = 1, f_Food_Name = ''Bread'', f_Quantity = 15,
     f_Expiry_Date = Some 20098, f_Provider_ID = Some 1, f_Provider_Type = None,
     f_Location = Some ''Springfield'', f_Food_Type = Some ''Vegetarian'',
     f_Meal_Type = Some ''Breakfast'', f_Days_To_Expiry = 3, f_Quantity_Category = ''Medium''\<rparr>"

definition sample_food2 :: food_listing where
  "sample_food2 = \<lparr>f_Food_ID = 2, f_Food_Name = ''Rice'', f_Quantity = 30,
     f_Expiry_Date = Some 20090, f_Provider_ID = Some 2, f_Provider_Type = None,
     f_Location = Some ''Shelbyville'', f_Food_Type = Some ''Vegan'',
     f_Meal_Type = Some ''Lunch'', f_Days_To_Expiry = -5, f_Quantity_Category = ''Large''\<rparr>"

subsection \<open>Notions for the claims about the handlers\<close>

text \<open>A provider, a database and a new session used to run the handlers on concrete data.\<close>

definition acme :: provider where
  "acme = \<lparr>p_Provider_ID = 1, p_Name = ''Acme Grocers'', p_Type = Some ''Grocery Store'',
     p_Address = Some ''12 Main St'', p_City = Some ''Springfield'', p_Contact = Some ''555-0100''\<rparr>"

definition sample_db :: database where
  "sample_db = \<lparr>fk_declared = True, providers = [acme], receivers = [],
     food_listings = [sample_food], claims = []\<rparr>"

definition fresh_session :: "unit app_state" where
  "fresh_session = \<lparr>store = sample_db, session_conn = None, cache = Map.empty\<rparr>"

text \<open>The connections a session can hold: none yet, or the one \<^verbatim>\<open>get_conn\<close> opened.\<close>

definition conn_ok :: "'df app_state \<Rightarrow> bool" where
  "conn_ok s = (session_conn s = None \<or> session_conn s = Some sqlite3_connect)"

subsection \<open>A reading function for concrete runs\<close>

text \<open>A reading of the store for the run below: the number of providers.\<close>

definition count_providers :: "string \<Rightarrow> sqlval list \<Rightarrow> database \<Rightarrow> nat" where
  "count_providers sql params d = length (providers d)"

subsection \<open>A concrete run of Create Food Listing\<close>

text \<open>
  A run of Create Food Listing in a new session over the sample database: bread for
  provider 1, expiring on day 20098, submitted at 14:00 of that same day.
\<close>

definition bread_run :: "int \<Rightarrow> ui_msg list \<times> unit app_state" where
  "bread_run qty =
     add_food ''Acme Grocers'' (Some 1) ''Bread'' qty 20098 [] ''Springfield'' ''Vegetarian''
       ''Breakfast'' (20098 * ns_per_day + 50400000000000) fresh_session"

subsection \<open>Notions for the claim about Query 5\<close>



subsection \<open>Notions for the claims about Queries 10 and 14\<close>

text \<open>Whether a claim exists against a listing owned by the provider with this identity.\<close>

definition has_claim :: "database \<Rightarrow> int \<Rightarrow> bool" where
  "has_claim d pid =
     list_ex (\<lambda>f. f_Provider_ID f = Some pid \<and>
                  list_ex (\<lambda>c. c_Food_ID c = Some (f_Food_ID f)) (claims d)) (food_listings d)"

text \<open>
  Three providers for concrete runs of the queries: Acme owns a listing nobody claimed, the
  diner owns no listing, and the bakery owns two listings, one of them with a completed
  claim.
\<close>

definition lonely :: provider where
  "lonely = \<lparr>p_Provider_ID = 2, p_Name = ''Lonely Diner'', p_Type = None, p_Address = None,
     p_City = None, p_Contact = None\<rparr>"

definition busy :: provider where
  "busy = \<lparr>p_Provider_ID = 3, p_Name = ''Busy Bakery'', p_Type = None, p_Address = None,
     p_City = None, p_Contact = None\<rparr>"

definition rice_claim :: claim where
  "rice_claim = \<lparr>c_Claim_ID = 1, c_Food_ID = Some 2, c_Receiver_ID = Some 1, c_Status = ''Completed''\<rparr>"

definition catalog_db :: database where
  "catalog_db = \<lparr>fk_declared = True, providers = [acme, lonely, busy], receivers = [],
     food_listings = [sample_food, sample_food2\<lparr>f_Provider_ID := Some 3\<rparr>,
       sample_food2\<lparr>f_Food_ID := 3, f_Provider_ID := Some 3\<rparr>],
     claims = [rice_claim]\<rparr>"

subsection \<open>Notions for the claim about Query 10\<close>

text \<open>
  The fulfillment rate in the specification's words: the listings a provider owns, the
  completed claims against those listings, and 100 times the number of the second divided
  by the number of the first, rounded to hundredths.
\<close>

definition listings_owned :: "database \<Rightarrow> provider \<Rightarrow> food_listing list" where
  "listings_owned d p = filter (\<lambda>f. f_Provider_ID f = Some (p_Provider_ID p)) (food_listings d)"

definition completed_claims :: "database \<Rightarrow> provider \<Rightarrow> claim list" where
  "completed_claims d p =
     filter (\<lambda>c. c_Status c = ''Completed'' \<and>
                 list_ex (\<lambda>f. c_Food_ID c = Some (f_Food_ID f)) (listings_owned d p)) (claims d)"

definition provider_rate :: "database \<Rightarrow> provider \<Rightarrow> rat" where
  "provider_rate d p =
     sql_round2 (100 * of_nat (length (completed_claims d p)) / of_nat (length (listings_owned d p)))"

text \<open>For the proofs: the joined rows of Query 10 that stem from one listing and from one provider.\<close>

definition q10_claim_rows ::
  "database \<Rightarrow> provider \<times> food_listing \<Rightarrow> ((provider \<times> food_listing) \<times> claim option) list" where
  "q10_claim_rows d pf =
     (case filter (\<lambda>c. c_Food_ID c = Some (f_Food_ID (snd pf))) (claims d) of
        [] \<Rightarrow> [(pf, None)]
      | m # ms \<Rightarrow> map (\<lambda>c. (pf, Some c)) (m # ms))"

definition q10_rows_of ::
  "database \<Rightarrow> provider \<Rightarrow> ((provider \<times> food_listing) \<times> claim option) list" where
  "q10_rows_of d p = concat (map (\<lambda>f. q10_claim_rows d (p, f)) (listings_owned d p))"

section \<open>Theorems\<close>

subsection \<open>The quantity category as a function\<close>

text \<open>The thresholds of \<open>qty_cat\<close> on its own, before any row is written.\<close>

lemma qty_cat_thresholds:
  "(qty_cat q = ''Small'') = (q < 5) \<and>
   (qty_cat q = ''Medium'') = (5 \<le> q \<and> q \<le> 20) \<and>
   (qty_cat q = ''Large'') = (20 < q) \<and>
   qty_cat 3 = ''Small'' \<and> qty_cat 5 = ''Medium'' \<and> qty_cat 10 = ''Medium'' \<and>
   qty_cat 20 = ''Medium'' \<and> qty_cat 25 = ''Large''"
  by (simp add: qty_cat_def)

subsection \<open>The filter builder\<close>

lemma in_clause_map: "in_clause col (map g xs) = in_clause col xs"
  by (simp add: in_clause_def comp_def)

lemma prov_ids_Nil: "prov_ids pl [] = []"
  by (simp add: prov_ids_def)

lemma build_where_active:
  "build_where cf pf pl ff mf =
     (render_where (active_clauses cf (prov_ids pl pf) ff mf),
      concat (map snd (active_clauses cf (prov_ids pl pf) ff mf)))"
  unfolding build_where_def active_clauses_def dim_clause_def render_where_def Let_def
  by (cases "cf = []"; cases "pf = []"; cases "prov_ids pl pf = []"; cases "ff = []"; cases "mf = []")
     (simp_all add: in_clause_map prov_ids_Nil)

lemma str_join_Cons: "str_join sep (x # xs) = x @ concat (map ((@) sep) xs)"
  by (induction xs arbitrary: x) auto

lemma split_sp_word: "CHR '' '' \<notin> set w \<Longrightarrow> split_sp (w @ CHR '' '' # s) = w # split_sp s"
  by (induction w) auto

lemma split_sp_last: "CHR '' '' \<notin> set w \<Longrightarrow> split_sp w = [w]"
  by (induction w) auto

lemma sql_tokens_word:
  "CHR '' '' \<notin> set w \<Longrightarrow> w \<noteq> [] \<Longrightarrow> sql_tokens (w @ CHR '' '' # s) = w # sql_tokens s"
  by (simp add: sql_tokens_def split_sp_word)

lemma sql_tokens_last: "CHR '' '' \<notin> set w \<Longrightarrow> w \<noteq> [] \<Longrightarrow> sql_tokens w = [w]"
  by (simp add: sql_tokens_def split_sp_last)

lemma sql_tokens_blank: "sql_tokens (CHR '' '' # s) = sql_tokens s"
  by (simp add: sql_tokens_def)

lemma ph_no_blank: "CHR '' '' \<notin> set (ph vals)"
  by (cases vals) (auto simp: ph_def str_join_Cons)

lemma in_clause_ph: "in_clause col vals = col @ CHR '' '' # ''IN'' @ CHR '' '' # ph vals"
  by (simp add: in_clause_def ph_def)

lemma qmarks_ph: "qmarks (''?'' @ concat (map ((@) '','') (map (\<lambda>_. ''?'') vs)) @ '')'') = Some (Suc (length vs))"
  by (induction vs) auto

lemma in_list_ph: "vals \<noteq> [] \<Longrightarrow> in_list (ph vals) = Some (length vals)"
  using qmarks_ph by (cases vals) (auto simp: ph_def in_list_def str_join_Cons)

lemma split_sp_ne: "split_sp s \<noteq> []"
  by (induction s) (auto split: list.splits)

lemma split_sp_append: "split_sp (u @ CHR '' '' # v) = split_sp u @ split_sp v"
proof (induction u)
  case Nil
  show ?case by simp
next
  case (Cons c u)
  obtain w ws where "split_sp u = w # ws"
    using split_sp_ne [of u] by (cases "split_sp u") auto
  with Cons show ?case by simp
qed

lemma sql_tokens_append: "sql_tokens (u @ CHR '' '' # v) = sql_tokens u @ sql_tokens v"
  by (simp add: sql_tokens_def split_sp_append)

lemma ph_ne: "ph vals \<noteq> []"
  by (simp add: ph_def)

lemma sql_tokens_in_clause:
  "good_col col \<Longrightarrow> sql_tokens (in_clause col vals) = clause_tokens (col, vals)"
proof -
  assume col: "good_col col"
  have "sql_tokens (in_clause col vals) = sql_tokens col @ sql_tokens ''IN'' @ sql_tokens (ph vals)"
    by (simp only: in_clause_ph sql_tokens_append)
  with col show ?thesis
    by (simp add: sql_tokens_last ph_no_blank ph_ne clause_tokens_def good_col_def)
qed

lemma sql_tokens_join_and:
  "sql_tokens (str_join '' AND '' (x # xs)) =
     sql_tokens x @ concat (map (\<lambda>y. ''AND'' # sql_tokens y) xs)"
proof (induction xs arbitrary: x)
  case Nil
  show ?case by simp
next
  case (Cons y ys)
  have "str_join '' AND '' (x # y # ys) = x @ CHR '' '' # (''AND'' @ CHR '' '' # str_join '' AND '' (y # ys))"
    by simp
  then have "sql_tokens (str_join '' AND '' (x # y # ys)) =
      sql_tokens x @ sql_tokens ''AND'' @ sql_tokens (str_join '' AND '' (y # ys))"
    by (simp only: sql_tokens_append)
  moreover have "sql_tokens ''AND'' = [''AND'']"
    by (simp add: sql_tokens_last)
  ultimately show ?case using Cons [of y] by simp
qed

lemma sql_tokens_food_df:
  "sql_tokens (food_df_sql W) =
     [''SELECT'', ''*'', ''FROM'', ''food_listings''] @ sql_tokens W @ order_by"
proof -
  have "food_df_sql W = ''SELECT'' @ CHR '' '' # (''*'' @ CHR '' '' # (''FROM'' @ CHR '' '' #
      (''food_listings'' @ CHR '' '' # (W @ CHR '' '' # (''ORDER'' @ CHR '' '' # (''BY'' @ CHR '' '' #
      ''Expiry_Date''))))))"
    by (simp add: food_df_sql_def)
  then show ?thesis
    by (simp only: sql_tokens_append) (simp add: sql_tokens_last order_by_def)
qed

lemma sql_tokens_render_where:
  assumes "\<forall>c \<in> set cls. good_col (fst c)" and "cls \<noteq> []"
  shows "sql_tokens (render_where cls) =
     ''WHERE'' # clause_tokens (hd cls) @ concat (map (\<lambda>c. ''AND'' # clause_tokens c) (tl cls))"
proof -
  obtain c cs where cls: "cls = c # cs" using assms(2) by (cases cls) auto
  have "render_where cls = ''WHERE'' @ CHR '' '' # str_join '' AND '' (map (\<lambda>c. in_clause (fst c) (snd c)) cls)"
    using assms(2) by (simp add: render_where_def)
  then have "sql_tokens (render_where cls) =
      ''WHERE'' # sql_tokens (str_join '' AND '' (map (\<lambda>c. in_clause (fst c) (snd c)) cls))"
    by (simp only: sql_tokens_append) (simp add: sql_tokens_last)
  also have "sql_tokens (str_join '' AND '' (map (\<lambda>c. in_clause (fst c) (snd c)) cls)) =
      clause_tokens c @ concat (map (\<lambda>c. ''AND'' # clause_tokens c) cs)"
    using assms(1) unfolding cls
    by (simp add: sql_tokens_join_and sql_tokens_in_clause [of "fst c" "snd c" for c] comp_def cong: map_cong)
  finally show ?thesis by (simp add: cls)
qed

lemma parse_conj_clauses:
  assumes "\<forall>c \<in> set (c # cs). snd c \<noteq> []"
  shows "parse_conj (clause_tokens c @ concat (map (\<lambda>c. ''AND'' # clause_tokens c) cs) @ order_by) =
     Some (map (\<lambda>c. (fst c, length (snd c))) (c # cs), order_by)"
  using assms
proof (induction cs arbitrary: c)
  case Nil
  then show ?case by (simp add: clause_tokens_def in_list_ph order_by_def)
next
  case (Cons d ds)
  then show ?case by (simp add: clause_tokens_def in_list_ph)
qed

lemma conj_true_clauses:
  "conj_true (map (\<lambda>c. (fst c, length (snd c))) cls) (concat (map snd cls)) f =
     list_all (\<lambda>c. sql_in (food_column f (fst c)) (snd c)) cls"
  by (induction cls) auto

lemma food_columns_good: "col \<in> set food_columns \<Longrightarrow> good_col col"
  by (auto simp: food_columns_def good_col_def)

lemma sum_list_lengths: "sum_list (map snd (map (\<lambda>c. (fst c, length (snd c))) cls)) = length (concat (map snd cls))"
  by (induction cls) auto

lemma read_sql_food_clauses:
  assumes "\<forall>c \<in> set cls. fst c \<in> set food_columns \<and> snd c \<noteq> []"
  shows "read_sql_food (food_df_sql (render_where cls)) (concat (map snd cls)) db =
     Inr (sort_key f_Expiry_Date
       (filter (\<lambda>f. list_all (\<lambda>c. sql_in (food_column f (fst c)) (snd c)) cls) (food_listings db)))"
proof (cases cls)
  case Nil
  have "sql_tokens (food_df_sql []) = [''SELECT'', ''*'', ''FROM'', ''food_listings''] @ order_by"
    by (simp add: sql_tokens_food_df) (simp add: sql_tokens_def)
  then have "parse_food_select (sql_tokens (food_df_sql [])) = Some []"
    by (simp add: parse_food_select_def order_by_def)
  with Nil show ?thesis
    by (simp add: read_sql_food_def render_where_def)
next
  case (Cons c cs)
  have good: "\<forall>c \<in> set cls. good_col (fst c)"
    using assms food_columns_good by blast
  have ne: "\<forall>c \<in> set (c # cs). snd c \<noteq> []"
    using assms Cons by simp
  have "sql_tokens (food_df_sql (render_where cls)) =
      [''SELECT'', ''*'', ''FROM'', ''food_listings'', ''WHERE''] @
      (clause_tokens c @ concat (map (\<lambda>c. ''AND'' # clause_tokens c) cs) @ order_by)"
    using sql_tokens_render_where [OF good] Cons by (simp add: sql_tokens_food_df)
  then have "parse_food_select (sql_tokens (food_df_sql (render_where cls))) =
      Some (map (\<lambda>c. (fst c, length (snd c))) cls)"
    using parse_conj_clauses [OF ne] Cons
    by (simp add: parse_food_select_def order_by_def)
  moreover have "list_all (\<lambda>c. fst c \<in> set food_columns) (map (\<lambda>c. (fst c, length (snd c))) cls)"
    using assms by (simp add: list_all_iff)
  moreover have "conj_true (map (\<lambda>c. (fst c, length (snd c))) cls) (concat (map snd cls)) =
      (\<lambda>f. list_all (\<lambda>c. sql_in (food_column f (fst c)) (snd c)) cls)"
    by (rule ext) (rule conj_true_clauses)
  ultimately show ?thesis
    by (simp add: read_sql_food_def comp_def length_concat)
qed

lemma active_clauses_ok:
  "\<forall>c \<in> set (active_clauses cf ids ff mf). fst c \<in> set food_columns \<and> snd c \<noteq> []"
  by (auto simp: active_clauses_def dim_clause_def food_columns_def)

lemma sql_in_text: "sql_in (Some (text_val v)) (map TextV xs) = (case v of None \<Rightarrow> False | Some x \<Rightarrow> x \<in> set xs)"
  by (auto simp: sql_in_def text_val_def split: option.splits)

lemma sql_in_int: "sql_in (Some (int_val v)) (map IntV xs) = (case v of None \<Rightarrow> False | Some x \<Rightarrow> x \<in> set xs)"
  by (auto simp: sql_in_def int_val_def split: option.splits)

lemma active_clauses_pass:
  "list_all (\<lambda>c. sql_in (food_column f (fst c)) (snd c)) (active_clauses cf ids ff mf) =
     (dim_pass cf (f_Location f) \<and> dim_pass ids (f_Provider_ID f) \<and>
      dim_pass ff (f_Food_Type f) \<and> dim_pass mf (f_Meal_Type f))"
  by (simp add: active_clauses_def dim_clause_def dim_pass_def food_column_def sql_in_text sql_in_int)

lemma read_filtered:
  "read_sql_food (food_df_sql (fst (build_where cf pf pl ff mf))) (snd (build_where cf pf pl ff mf)) db =
     Inr (sort_key f_Expiry_Date
       (filter (\<lambda>f. dim_pass cf (f_Location f) \<and> dim_pass (prov_ids pl pf) (f_Provider_ID f) \<and>
                    dim_pass ff (f_Food_Type f) \<and> dim_pass mf (f_Meal_Type f)) (food_listings db)))"
  by (simp add: build_where_active read_sql_food_clauses [OF active_clauses_ok] active_clauses_pass)

lemma read_query_3:
  "read_sql_food ''SELECT * FROM food_listings ORDER BY Expiry_Date'' [] db =
     Inr (sort_key f_Expiry_Date (food_listings db))"
proof -
  have "sql_tokens ''SELECT * FROM food_listings ORDER BY Expiry_Date'' =
      [''SELECT'', ''*'', ''FROM'', ''food_listings'', ''ORDER'', ''BY'', ''Expiry_Date'']"
    by (simp add: sql_tokens_def)
  then show ?thesis
    by (simp add: read_sql_food_def parse_food_select_def)
qed

lemma in_clause_fragment: "vals \<noteq> [] \<Longrightarrow> [in_clause col vals] = in_fragment col (length vals)"
  by (simp add: in_clause_def in_fragment_def map_replicate_const)

lemma where_text_counts:
  "fst (build_where cf pf pl ff mf) =
     where_text (length cf) (length (prov_ids pl pf)) (length ff) (length mf)"
proof -
  have fr: "map (\<lambda>c. in_clause (fst c) (snd c)) (dim_clause col (map g vals)) = in_fragment col (length vals)"
    for col and g :: "'a \<Rightarrow> sqlval" and vals
    by (simp add: dim_clause_def in_clause_def in_fragment_def map_replicate_const comp_def)
  have e1: "(dim_clause col (map g vals) = []) = (vals = [])"
    for col and g :: "'a \<Rightarrow> sqlval" and vals
    by (simp add: dim_clause_def)
  have e2: "(in_fragment col (length vals) = []) = (vals = [])" for col and vals :: "'a list"
    by (simp add: in_fragment_def)
  show ?thesis
    by (simp add: build_where_active render_where_def where_text_def active_clauses_def fr e1 e2 Let_def)
qed

lemma where_params:
  "snd (build_where cf pf pl ff mf) =
     map TextV cf @ map IntV (prov_ids pl pf) @ map TextV ff @ map TextV mf"
  by (simp add: build_where_active active_clauses_def dim_clause_def)

lemma where_text_prefix: "where_text a b c d = [] \<or> take 6 (where_text a b c d) = ''WHERE ''"
  by (simp add: where_text_def Let_def)

text \<open>
  C1 (as amended). With nothing selected in any dimension the builder returns the empty
  predicate and no parameters, and the base read is the unfiltered read of all listings.
  In general the predicate text is determined by the number of bound values per dimension
  (one question mark each, no value in the text): the city, food type and meal type
  dimensions bind their selected values, the provider dimension binds the identities of
  the providers whose name is selected, one question mark per identity. The parameters
  are these values in the order city, provider, food type, meal type; the text is
  empty or starts with WHERE; and the store answers the base read with the listings that
  pass every dimension, ordered by expiry date.
\<close>

theorem build_where_contract:
  "build_where cf pf pl ff mf = (w, ps) \<Longrightarrow>
     (cf = [] \<and> pf = [] \<and> ff = [] \<and> mf = [] \<longrightarrow>
        w = [] \<and> ps = [] \<and>
        read_sql_food (food_df_sql w) ps db =
          read_sql_food ''SELECT * FROM food_listings ORDER BY Expiry_Date'' [] db) \<and>
     w = where_text (length cf) (length (prov_ids pl pf)) (length ff) (length mf) \<and>
     ps = map TextV cf @ map IntV (prov_ids pl pf) @ map TextV ff @ map TextV mf \<and>
     (w = [] \<or> take 6 w = ''WHERE '') \<and>
     read_sql_food (food_df_sql w) ps db =
       Inr (sort_key f_Expiry_Date
         (filter (\<lambda>f. dim_pass cf (f_Location f) \<and> dim_pass (prov_ids pl pf) (f_Provider_ID f) \<and>
                      dim_pass ff (f_Food_Type f) \<and> dim_pass mf (f_Meal_Type f))
            (food_listings db)))"
proof -
  assume bw: "build_where cf pf pl ff mf = (w, ps)"
  have w: "w = where_text (length cf) (length (prov_ids pl pf)) (length ff) (length mf)"
    using where_text_counts [of cf pf pl ff mf] bw by simp
  have ps: "ps = map TextV cf @ map IntV (prov_ids pl pf) @ map TextV ff @ map TextV mf"
    using where_params [of cf pf pl ff mf] bw by simp
  have rd: "read_sql_food (food_df_sql w) ps db =
       Inr (sort_key f_Expiry_Date
         (filter (\<lambda>f. dim_pass cf (f_Location f) \<and> dim_pass (prov_ids pl pf) (f_Provider_ID f) \<and>
                      dim_pass ff (f_Food_Type f) \<and> dim_pass mf (f_Meal_Type f))
            (food_listings db)))"
    using read_filtered [of cf pf pl ff mf db] bw by simp
  have pre: "w = [] \<or> take 6 w = ''WHERE ''"
    unfolding w by (rule where_text_prefix)
  have emp: "w = [] \<and> ps = [] \<and>
        read_sql_food (food_df_sql w) ps db =
          read_sql_food ''SELECT * FROM food_listings ORDER BY Expiry_Date'' [] db"
    if "cf = [] \<and> pf = [] \<and> ff = [] \<and> mf = []"
  proof -
    have "w = []" using that w by (simp add: where_text_def in_fragment_def prov_ids_Nil)
    moreover have "ps = []" using that ps by (simp add: prov_ids_Nil)
    moreover have "read_sql_food (food_df_sql w) ps db = Inr (sort_key f_Expiry_Date (food_listings db))"
      using that rd by (simp add: dim_pass_def prov_ids_Nil)
    ultimately show ?thesis by (simp add: read_query_3)
  qed
  from emp w ps pre rd show ?thesis by blast
qed

text \<open>
  The claim as first stated asks for one question mark per selected value in every
  dimension. Two providers may share a name; selecting that one name binds both
  identities, so the provider fragment has two question marks for one selected value.
\<close>

theorem build_where_provider_counterexample:
  "build_where [] [''Acme''] [(1, ''Acme''), (2, ''Acme'')] [] [] =
     (''WHERE Provider_ID IN (?,?)'', [IntV 1, IntV 2]) \<and>
   fst (build_where [] [''Acme''] [(1, ''Acme''), (2, ''Acme'')] [] []) \<noteq>
     where_text 0 (length [''Acme'']) 0 0"
  by (simp add: build_where_def prov_ids_def in_clause_def where_text_def in_fragment_def)

theorem build_where_contract_witness:
  "build_where [] [] [(1, ''Acme'')] [] [] = ([], []) \<and>
   read_sql_food (food_df_sql []) []
       \<lparr>fk_declared = True, providers = [], receivers = [], food_listings = [sample_food, sample_food2], claims = []\<rparr> =
     read_sql_food ''SELECT * FROM food_listings ORDER BY Expiry_Date'' []
       \<lparr>fk_declared = True, providers = [], receivers = [], food_listings = [sample_food, sample_food2], claims = []\<rparr> \<and>
   build_where [''Springfield''] [''Acme''] [(1, ''Acme''), (2, ''Acme'')] [] [''Breakfast''] =
     (''WHERE Location IN (?) AND Provider_ID IN (?,?) AND Meal_Type IN (?)'',
      [TextV ''Springfield'', IntV 1, IntV 2, TextV ''Breakfast'']) \<and>
   read_sql_food (food_df_sql ''WHERE Location IN (?) AND Provider_ID IN (?,?) AND Meal_Type IN (?)'')
       [TextV ''Springfield'', IntV 1, IntV 2, TextV ''Breakfast'']
       \<lparr>fk_declared = True, providers = [], receivers = [], food_listings = [sample_food, sample_food2], claims = []\<rparr> =
     Inr [sample_food]"
proof -
  have a: "build_where [] [] [(1, ''Acme'')] [] [] = ([], [])"
    by (simp add: build_where_def)
  have b: "build_where [''Springfield''] [''Acme''] [(1, ''Acme''), (2, ''Acme'')] [] [''Breakfast''] =
     (''WHERE Location IN (?) AND Provider_ID IN (?,?) AND Meal_Type IN (?)'',
      [TextV ''Springfield'', IntV 1, IntV 2, TextV ''Breakfast''])"
    by (simp add: build_where_def prov_ids_def in_clause_def)
  show ?thesis
    using build_where_contract [OF a,
        of "\<lparr>fk_declared = True, providers = [], receivers = [], food_listings = [sample_food, sample_food2], claims = []\<rparr>"]
      build_where_contract [OF b,
        of "\<lparr>fk_declared = True, providers = [], receivers = [], food_listings = [sample_food, sample_food2], claims = []\<rparr>"]
      a b
    by (simp add: dim_pass_def prov_ids_def where_text_def in_fragment_def
        sample_food_def sample_food2_def)
qed

text \<open>
  C10. When provider names are selected but no row of the provider frame carries any of
  them, the builder behaves as if no provider were selected: there is no Provider_ID
  fragment and no provider parameter, the statement is accepted by the store, and every
  listing passes the provider dimension.
\<close>

theorem provider_names_resolving_to_nothing:
  "provider_filter_name \<noteq> [] \<Longrightarrow> prov_ids provider_list provider_filter_name = [] \<Longrightarrow>
     build_where cf provider_filter_name provider_list ff mf = build_where cf [] provider_list ff mf \<and>
     fst (build_where cf provider_filter_name provider_list ff mf) =
       where_text (length cf) 0 (length ff) (length mf) \<and>
     snd (build_where cf provider_filter_name provider_list ff mf) =
       map TextV cf @ map TextV ff @ map TextV mf \<and>
     read_sql_food (food_df_sql (fst (build_where cf provider_filter_name provider_list ff mf)))
         (snd (build_where cf provider_filter_name provider_list ff mf)) db =
       Inr (sort_key f_Expiry_Date
         (filter (\<lambda>f. dim_pass cf (f_Location f) \<and> dim_pass ff (f_Food_Type f) \<and>
                      dim_pass mf (f_Meal_Type f))
            (food_listings db)))"
proof -
  assume ne: "provider_filter_name \<noteq> []" and ids: "prov_ids provider_list provider_filter_name = []"
  have "build_where cf provider_filter_name provider_list ff mf = build_where cf [] provider_list ff mf"
    by (simp add: build_where_active ids prov_ids_Nil)
  moreover have "fst (build_where cf provider_filter_name provider_list ff mf) =
       where_text (length cf) 0 (length ff) (length mf)"
    by (simp add: where_text_counts ids)
  moreover have "snd (build_where cf provider_filter_name provider_list ff mf) =
       map TextV cf @ map TextV ff @ map TextV mf"
    by (simp add: where_params ids)
  moreover have "read_sql_food (food_df_sql (fst (build_where cf provider_filter_name provider_list ff mf)))
         (snd (build_where cf provider_filter_name provider_list ff mf)) db =
       Inr (sort_key f_Expiry_Date
         (filter (\<lambda>f. dim_pass cf (f_Location f) \<and> dim_pass ff (f_Food_Type f) \<and>
                      dim_pass mf (f_Meal_Type f))
            (food_listings db)))"
    by (simp add: read_filtered ids dim_pass_def)
  ultimately show ?thesis by blast
qed

theorem provider_names_resolving_to_nothing_witness:
  "[''Ghost''] \<noteq> [] \<and> prov_ids [(1, ''Acme'')] [''Ghost''] = [] \<and>
   build_where [''Springfield''] [''Ghost''] [(1, ''Acme'')] [] [] =
     (''WHERE Location IN (?)'', [TextV ''Springfield'']) \<and>
   read_sql_food (food_df_sql (fst (build_where [''Springfield''] [''Ghost''] [(1, ''Acme'')] [] [])))
       (snd (build_where [''Springfield''] [''Ghost''] [(1, ''Acme'')] [] []))
       \<lparr>fk_declared = True, providers = [], receivers = [], food_listings = [sample_food, sample_food2], claims = []\<rparr> =
     Inr [sample_food]"
proof -
  have a: "[''Ghost''] \<noteq> ([] :: string list)" by simp
  have b: "prov_ids [(1, ''Acme'')] [''Ghost''] = []" by (simp add: prov_ids_def)
  have c: "build_where [''Springfield''] [''Ghost''] [(1, ''Acme'')] [] [] =
     (''WHERE Location IN (?)'', [TextV ''Springfield''])"
    by (simp add: build_where_def prov_ids_def in_clause_def)
  have d: "build_where [''Springfield''] [] [(1, ''Acme'')] [] [] =
     (''WHERE Location IN (?)'', [TextV ''Springfield''])"
    by (simp add: build_where_def in_clause_def)
  show ?thesis
    using provider_names_resolving_to_nothing [OF a b, of "[''Springfield'']" "[]" "[]"
        "\<lparr>fk_declared = True, providers = [], receivers = [], food_listings = [sample_food, sample_food2], claims = []\<rparr>"]
      b c d
    by (simp add: dim_pass_def where_text_def in_fragment_def sample_food_def sample_food2_def)
qed

subsection \<open>The data access layer and Create Provider\<close>

lemma get_conn_default: "conn_ok s \<Longrightarrow> fst (get_conn s) = sqlite3_connect"
  by (auto simp: conn_ok_def get_conn_def)

lemma get_conn_store: "store (snd (get_conn s)) = store s"
  by (simp add: get_conn_def split: option.splits)

lemma get_conn_cache: "cache (snd (get_conn s)) = cache s"
  by (simp add: get_conn_def split: option.splits)

lemma fetch_df_miss:
  "cache s (sql, params) = None \<Longrightarrow> fst (fetch_df rd now sql params s) = rd sql params (store s)"
  by (simp add: fetch_df_def get_conn_def Let_def split: option.splits)

lemma run_write_cases:
  "run_write stmt s = (r, s1) \<Longrightarrow>
     (case r of Inl e \<Rightarrow> store s1 = store s
              | Inr rowid \<Rightarrow> execute (fst (get_conn s)) stmt (store s) = Inr (rowid, store s1))"
  by (auto simp: run_write_def get_conn_def split: option.splits sum.splits prod.splits)

lemma days_to_exp_floor:
  "days_to_exp e today = e - date_of today - (if today mod ns_per_day = 0 then 0 else 1)"
proof -
  have pos: "0 < ns_per_day" by (simp add: ns_per_day_def)
  have "(- today + ns_per_day * e) div ns_per_day = e + (- today) div ns_per_day"
    using pos div_mult_self2 [of ns_per_day "- today" e] by linarith
  moreover have "e * ns_per_day - today = - today + ns_per_day * e"
    by (simp only: mult.commute [of e] uminus_add_conv_diff)
  ultimately have "(e * ns_per_day - today) div ns_per_day = e + (- today) div ns_per_day"
    by (simp only:)
  moreover have "(- today) div ns_per_day = - (today div ns_per_day) - (if today mod ns_per_day = 0 then 0 else 1)"
    using pos by (simp add: zdiv_zminus1_eq_if)
  ultimately show ?thesis
    by (simp add: days_to_exp_def timedelta_days_def to_datetime_def date_of_def)
qed

lemma add_provider_reject:
  "\<not> (name \<noteq> [] \<and> city \<noteq> []) \<Longrightarrow>
     add_provider name ptype address city contact s = ([St_error ''Name and City are required.''], s)"
  by (auto simp: add_provider_def)

lemma add_provider_accept:
  "name \<noteq> [] \<Longrightarrow> city \<noteq> [] \<Longrightarrow>
     add_provider name ptype address city contact s =
       ([St_success (''Provider '' @ [CHR 0x27] @ name @ [CHR 0x27] @ '' added.'')],
        (snd (get_conn s))\<lparr>store := (store s)\<lparr>providers := providers (store s) @
           [\<lparr>p_Provider_ID = next_rowid (map p_Provider_ID (providers (store s))), p_Name = name,
             p_Type = Some ptype, p_Address = Some address, p_City = Some city,
             p_Contact = Some contact\<rparr>]\<rparr>, cache := Map.empty\<rparr>)"
  by (simp add: add_provider_def run_write_def get_conn_def Let_def split: option.splits)

lemma providers_grow: "d\<lparr>providers := providers d @ [p]\<rparr> \<noteq> d"
proof
  assume "d\<lparr>providers := providers d @ [p]\<rparr> = d"
  then have "providers (d\<lparr>providers := providers d @ [p]\<rparr>) = providers d" by simp
  then show False by simp
qed

text \<open>
  C8. Create Provider writes exactly when the name and the city are both non-empty: then the
  providers table gains one row holding the five submitted values and nothing else in the
  store changes. When either is empty the handler reports
  "Name and City are required." and returns the state it was given, so neither the store
  nor the memo nor the session changes.
\<close>

theorem add_provider_writes_iff_valid:
  "add_provider name ptype address city contact s = (msgs, s') \<Longrightarrow>
     (store s' \<noteq> store s) = (name \<noteq> [] \<and> city \<noteq> []) \<and>
     (name \<noteq> [] \<and> city \<noteq> [] \<longrightarrow>
        store s' = (store s)\<lparr>providers := providers (store s) @
           [\<lparr>p_Provider_ID = next_rowid (map p_Provider_ID (providers (store s))), p_Name = name,
             p_Type = Some ptype, p_Address = Some address, p_City = Some city,
             p_Contact = Some contact\<rparr>]\<rparr> \<and>
        msgs = [St_success (''Provider '' @ [CHR 0x27] @ name @ [CHR 0x27] @ '' added.'')]) \<and>
     (name = [] \<or> city = [] \<longrightarrow> s' = s \<and> msgs = [St_error ''Name and City are required.''])"
proof (cases "name \<noteq> [] \<and> city \<noteq> []")
  case True
  assume "add_provider name ptype address city contact s = (msgs, s')"
  with True add_provider_accept [of name city ptype address contact s]
  have m: "msgs = [St_success (''Provider '' @ [CHR 0x27] @ name @ [CHR 0x27] @ '' added.'')]"
    and st: "store s' = (store s)\<lparr>providers := providers (store s) @
           [\<lparr>p_Provider_ID = next_rowid (map p_Provider_ID (providers (store s))), p_Name = name,
             p_Type = Some ptype, p_Address = Some address, p_City = Some city,
             p_Contact = Some contact\<rparr>]\<rparr>"
    by auto
  from st have "store s' \<noteq> store s" by (simp add: providers_grow)
  with True m st show ?thesis by simp
next
  case False
  assume "add_provider name ptype address city contact s = (msgs, s')"
  with False add_provider_reject [of name city ptype address contact s]
  have "s' = s" and "msgs = [St_error ''Name and City are required.'']" by auto
  with False show ?thesis by auto
qed

theorem add_provider_writes_iff_valid_witness:
  "add_provider ''Acme Grocers'' ''Grocery Store'' ''12 Main St'' ''Springfield'' ''555-0100''
       \<lparr>store = \<lparr>fk_declared = True, providers = [], receivers = [], food_listings = [], claims = []\<rparr>,
         session_conn = None, cache = (Map.empty :: string \<times> sqlval list \<rightharpoonup> int \<times> unit)\<rparr> =
     ([St_success (''Provider '' @ [CHR 0x27] @ ''Acme Grocers'' @ [CHR 0x27] @ '' added.'')],
      \<lparr>store = \<lparr>fk_declared = True, providers = [acme], receivers = [], food_listings = [], claims = []\<rparr>,
        session_conn = Some sqlite3_connect, cache = Map.empty\<rparr>) \<and>
   add_provider ''Acme Grocers'' ''Grocery Store'' ''12 Main St'' [] ''555-0100''
       \<lparr>store = \<lparr>fk_declared = True, providers = [], receivers = [], food_listings = [], claims = []\<rparr>,
         session_conn = None, cache = (Map.empty :: string \<times> sqlval list \<rightharpoonup> int \<times> unit)\<rparr> =
     ([St_error ''Name and City are required.''],
      \<lparr>store = \<lparr>fk_declared = True, providers = [], receivers = [], food_listings = [], claims = []\<rparr>,
        session_conn = None, cache = Map.empty\<rparr>) \<and>
   store \<lparr>store = \<lparr>fk_declared = True, providers = [acme], receivers = [], food_listings = [], claims = []\<rparr>,
        session_conn = Some sqlite3_connect, cache = (Map.empty :: string \<times> sqlval list \<rightharpoonup> int \<times> unit)\<rparr> \<noteq>
     \<lparr>fk_declared = True, providers = [], receivers = [], food_listings = [], claims = []\<rparr>"
proof -
  have a: "add_provider ''Acme Grocers'' ''Grocery Store'' ''12 Main St'' ''Springfield'' ''555-0100''
       \<lparr>store = \<lparr>fk_declared = True, providers = [], receivers = [], food_listings = [], claims = []\<rparr>,
         session_conn = None, cache = (Map.empty :: string \<times> sqlval list \<rightharpoonup> int \<times> unit)\<rparr> =
     ([St_success (''Provider '' @ [CHR 0x27] @ ''Acme Grocers'' @ [CHR 0x27] @ '' added.'')],
      \<lparr>store = \<lparr>fk_declared = True, providers = [acme], receivers = [], food_listings = [], claims = []\<rparr>,
        session_conn = Some sqlite3_connect, cache = Map.empty\<rparr>)"
    by (simp add: add_provider_def run_write_def get_conn_def next_rowid_def acme_def)
  have b: "add_provider ''Acme Grocers'' ''Grocery Store'' ''12 Main St'' [] ''555-0100''
       \<lparr>store = \<lparr>fk_declared = True, providers = [], receivers = [], food_listings = [], claims = []\<rparr>,
         session_conn = None, cache = (Map.empty :: string \<times> sqlval list \<rightharpoonup> int \<times> unit)\<rparr> =
     ([St_error ''Name and City are required.''],
      \<lparr>store = \<lparr>fk_declared = True, providers = [], receivers = [], food_listings = [], claims = []\<rparr>,
        session_conn = None, cache = Map.empty\<rparr>)"
    by (simp add: add_provider_def)
  show ?thesis
    using add_provider_writes_iff_valid [OF a] add_provider_writes_iff_valid [OF b] a b
    by simp
qed

subsection \<open>Writes and the memo\<close>

lemma run_write_Inl: "run_write stmt s = (Inl e, s1) \<Longrightarrow> store s1 = store s"
  by (auto simp: run_write_def get_conn_def split: option.splits sum.splits prod.splits)

lemma add_provider_outcome:
  "add_provider name ptype address city contact s = (msgs, s') \<Longrightarrow>
     (store s' = store s \<and> (\<forall>m. St_success m \<notin> set msgs)) \<or> cache s' = Map.empty"
  by (auto simp: add_provider_def split: if_splits prod.splits sum.splits dest: run_write_Inl)

lemma add_food_outcome:
  "add_food provider provider_id food_name qty exp_date provider_type location ftype mtype today s =
       (msgs, s') \<Longrightarrow>
     (store s' = store s \<and> (\<forall>m. St_success m \<notin> set msgs)) \<or> cache s' = Map.empty"
  by (auto simp: add_food_def split: if_splits option.splits prod.splits sum.splits
      dest: run_write_Inl)

lemma add_claim_outcome:
  "add_claim food_id receiver_id status s = (msgs, s') \<Longrightarrow>
     (store s' = store s \<and> (\<forall>m. St_success m \<notin> set msgs)) \<or> cache s' = Map.empty"
  by (auto simp: add_claim_def split: if_splits option.splits prod.splits sum.splits
      dest: run_write_Inl)

lemma update_contact_outcome:
  "update_contact new pid s = (msgs, s') \<Longrightarrow>
     (store s' = store s \<and> (\<forall>m. St_success m \<notin> set msgs)) \<or> cache s' = Map.empty"
  by (auto simp: update_contact_def split: prod.splits sum.splits dest: run_write_Inl)

lemma update_quantity_outcome:
  "update_quantity new_qty fid s = (msgs, s') \<Longrightarrow>
     (store s' = store s \<and> (\<forall>m. St_success m \<notin> set msgs)) \<or> cache s' = Map.empty"
  by (auto simp: update_quantity_def split: prod.splits sum.splits dest: run_write_Inl)

lemma update_status_outcome:
  "update_status new_status claim_id s = (msgs, s') \<Longrightarrow>
     (store s' = store s \<and> (\<forall>m. St_success m \<notin> set msgs)) \<or> cache s' = Map.empty"
  by (auto simp: update_status_def split: prod.splits sum.splits dest: run_write_Inl)

lemma delete_provider_outcome:
  "delete_provider pid s = (msgs, s') \<Longrightarrow>
     (store s' = store s \<and> (\<forall>m. St_success m \<notin> set msgs)) \<or> cache s' = Map.empty"
  by (auto simp: delete_provider_def split: prod.splits sum.splits dest: run_write_Inl)

lemma delete_food_outcome:
  "delete_food fid s = (msgs, s') \<Longrightarrow>
     (store s' = store s \<and> (\<forall>m. St_success m \<notin> set msgs)) \<or> cache s' = Map.empty"
  by (auto simp: delete_food_def split: prod.splits sum.splits dest: run_write_Inl)

lemma delete_claim_outcome:
  "delete_claim cid s = (msgs, s') \<Longrightarrow>
     (store s' = store s \<and> (\<forall>m. St_success m \<notin> set msgs)) \<or> cache s' = Map.empty"
  by (auto simp: delete_claim_def split: prod.splits sum.splits dest: run_write_Inl)

lemma handle_outcome:
  "handle a s = (msgs, s') \<Longrightarrow>
     (store s' = store s \<and> (\<forall>m. St_success m \<notin> set msgs)) \<or> cache s' = Map.empty"
proof (cases a)
  case (Add_provider name ptype address city contact)
  assume "handle a s = (msgs, s')"
  with Add_provider show ?thesis using add_provider_outcome by simp
next
  case (Add_food provider provider_id food_name qty exp_date provider_type location ftype mtype today)
  assume "handle a s = (msgs, s')"
  with Add_food show ?thesis using add_food_outcome by simp
next
  case (Add_claim food_id receiver_id status)
  assume "handle a s = (msgs, s')"
  with Add_claim show ?thesis using add_claim_outcome by simp
next
  case (Update_contact new pid)
  assume "handle a s = (msgs, s')"
  with Update_contact show ?thesis using update_contact_outcome by simp
next
  case (Update_quantity new_qty fid)
  assume "handle a s = (msgs, s')"
  with Update_quantity show ?thesis using update_quantity_outcome by simp
next
  case (Update_status new_status claim_id)
  assume "handle a s = (msgs, s')"
  with Update_status show ?thesis using update_status_outcome by simp
next
  case (Del_provider pid)
  assume "handle a s = (msgs, s')"
  with Del_provider show ?thesis using delete_provider_outcome by simp
next
  case (Del_food fid)
  assume "handle a s = (msgs, s')"
  with Del_food show ?thesis using delete_food_outcome by simp
next
  case (Del_claim cid)
  assume "handle a s = (msgs, s')"
  with Del_claim show ?thesis using delete_claim_outcome by simp
qed

text \<open>
  C9. Whenever one of the nine write operations changes the store or reports success, the
  memo is empty when the handler returns; so the next read of any statement with any
  parameters, at any time, is answered from the store as the write left it and not from
  an entry stored before the write.
\<close>

theorem successful_write_clears_cache:
  "handle a s = (msgs, s') \<Longrightarrow> store s' \<noteq> store s \<or> (\<exists>m. St_success m \<in> set msgs) \<Longrightarrow>
     cache s' = Map.empty \<and>
     fst (fetch_df read_sql_query now sql params s') = read_sql_query sql params (store s')"
proof -
  assume h: "handle a s = (msgs, s')" and w: "store s' \<noteq> store s \<or> (\<exists>m. St_success m \<in> set msgs)"
  from handle_outcome [OF h] w have c: "cache s' = Map.empty" by blast
  then have "cache s' (sql, params) = None" by simp
  from fetch_df_miss [OF this] c show ?thesis by simp
qed

theorem successful_write_clears_cache_witness:
  "fst (fetch_df count_providers 5 ''SELECT COUNT(*) AS n FROM providers'' []
     \<lparr>store = \<lparr>fk_declared = True, providers = [], receivers = [], food_listings = [], claims = []\<rparr>,
       session_conn = Some sqlite3_connect,
       cache = [(''SELECT COUNT(*) AS n FROM providers'', []) \<mapsto> (0, 0)]\<rparr>) = 0 \<and>
   fst (handle (Add_provider ''Acme Grocers'' ''Grocery Store'' ''12 Main St'' ''Springfield'' ''555-0100'')
     \<lparr>store = \<lparr>fk_declared = True, providers = [], receivers = [], food_listings = [], claims = []\<rparr>,
       session_conn = Some sqlite3_connect,
       cache = [(''SELECT COUNT(*) AS n FROM providers'', []) \<mapsto> (0, 0 :: nat)]\<rparr>) =
     [St_success (''Provider '' @ [CHR 0x27] @ ''Acme Grocers'' @ [CHR 0x27] @ '' added.'')] \<and>
   fst (fetch_df count_providers 10 ''SELECT COUNT(*) AS n FROM providers'' []
     (snd (handle (Add_provider ''Acme Grocers'' ''Grocery Store'' ''12 Main St'' ''Springfield'' ''555-0100'')
       \<lparr>store = \<lparr>fk_declared = True, providers = [], receivers = [], food_listings = [], claims = []\<rparr>,
         session_conn = Some sqlite3_connect,
         cache = [(''SELECT COUNT(*) AS n FROM providers'', []) \<mapsto> (0, 0)]\<rparr>))) = 1"
proof -
  let ?s = "\<lparr>store = \<lparr>fk_declared = True, providers = [], receivers = [], food_listings = [], claims = []\<rparr>,
       session_conn = Some sqlite3_connect,
       cache = [(''SELECT COUNT(*) AS n FROM providers'', []) \<mapsto> (0 :: int, 0 :: nat)]\<rparr>"
  let ?a = "Add_provider ''Acme Grocers'' ''Grocery Store'' ''12 Main St'' ''Springfield'' ''555-0100''"
  have m: "fst (handle ?a ?s) =
      [St_success (''Provider '' @ [CHR 0x27] @ ''Acme Grocers'' @ [CHR 0x27] @ '' added.'')]"
    by (simp add: add_provider_def run_write_def get_conn_def Let_def)
  have st: "store (snd (handle ?a ?s)) = \<lparr>fk_declared = True, providers = [acme], receivers = [],
      food_listings = [], claims = []\<rparr>"
    by (simp add: add_provider_def run_write_def get_conn_def next_rowid_def acme_def)
  have h: "handle ?a ?s = (fst (handle ?a ?s), snd (handle ?a ?s))" by simp
  have w: "store (snd (handle ?a ?s)) \<noteq> store ?s \<or> (\<exists>m. St_success m \<in> set (fst (handle ?a ?s)))"
    using m by simp
  have before: "fst (fetch_df count_providers 5 ''SELECT COUNT(*) AS n FROM providers'' [] ?s) = 0"
    by (simp add: fetch_df_def)
  from successful_write_clears_cache [OF h w, of count_providers 10 "''SELECT COUNT(*) AS n FROM providers''" "[]"] st
  have "fst (fetch_df count_providers 10 ''SELECT COUNT(*) AS n FROM providers'' [] (snd (handle ?a ?s))) = 1"
    by (simp add: count_providers_def)
  with m before show ?thesis by simp
qed

subsection \<open>Create Food Listing: the stored quantity category\<close>

lemma conn_ok_unenforced: "conn_ok s \<Longrightarrow> \<not> enforced (fst (get_conn s)) d"
  by (simp add: get_conn_default enforced_def sqlite3_connect_def)

lemma add_food_accept:
  assumes "conn_ok s" and "pid \<noteq> 0" and "food_name \<noteq> []" and "location \<noteq> []"
  shows "add_food provider (Some pid) food_name qty exp_date provider_type location ftype mtype today s =
     ([St_success (''Food '' @ [CHR 0x27] @ food_name @ [CHR 0x27] @ '' added for '' @ provider @ ''.'')],
      (snd (get_conn s))\<lparr>store := (store s)\<lparr>food_listings := food_listings (store s) @
         [\<lparr>f_Food_ID = next_rowid (map f_Food_ID (food_listings (store s))), f_Food_Name = food_name,
           f_Quantity = qty, f_Expiry_Date = Some exp_date, f_Provider_ID = Some pid,
           f_Provider_Type = Some provider_type, f_Location = Some location,
           f_Food_Type = Some ftype, f_Meal_Type = Some mtype,
           f_Days_To_Expiry = days_to_exp exp_date today,
           f_Quantity_Category = qty_cat qty\<rparr>]\<rparr>, cache := Map.empty\<rparr>)"
proof -
  have ne: "\<not> enforced (fst (get_conn s)) (store (snd (get_conn s)))"
    using assms(1) by (rule conn_ok_unenforced)
  obtain conn s1 where g: "get_conn s = (conn, s1)" by (cases "get_conn s")
  have st: "store s1 = store s" using get_conn_store [of s] g by simp
  from ne g st have "\<not> enforced conn (store s)" by simp
  with assms(2-4) g st show ?thesis
    by (simp add: add_food_def run_write_def Let_def)
qed

text \<open>
  C4. When Create Food Listing is submitted with a provider, a food name and a location,
  the listings table gains one row whose quantity is the submitted one and whose
  Quantity_Category is Small exactly when the quantity is below 5, Medium exactly when it
  lies between 5 and 20 inclusive, and Large exactly when it exceeds 20. The run below
  stores Small for 3, Medium for 5, 10 and 20, and Large for 25.
\<close>

theorem add_food_stores_quantity_category:
  "conn_ok s \<Longrightarrow> pid \<noteq> 0 \<Longrightarrow> food_name \<noteq> [] \<Longrightarrow> location \<noteq> [] \<Longrightarrow>
   add_food provider (Some pid) food_name qty exp_date provider_type location ftype mtype today s =
     (msgs, s') \<Longrightarrow>
     food_listings (store s') = food_listings (store s) @ [last (food_listings (store s'))] \<and>
     f_Quantity (last (food_listings (store s'))) = qty \<and>
     (f_Quantity_Category (last (food_listings (store s'))) = ''Small'') = (qty < 5) \<and>
     (f_Quantity_Category (last (food_listings (store s'))) = ''Medium'') = (5 \<le> qty \<and> qty \<le> 20) \<and>
     (f_Quantity_Category (last (food_listings (store s'))) = ''Large'') = (20 < qty)"
proof -
  assume a: "conn_ok s" "pid \<noteq> 0" "food_name \<noteq> []" "location \<noteq> []"
    and r: "add_food provider (Some pid) food_name qty exp_date provider_type location ftype mtype
      today s = (msgs, s')"
  from add_food_accept [OF a, of provider qty exp_date provider_type ftype mtype today] r
  have "food_listings (store s') = food_listings (store s) @
         [\<lparr>f_Food_ID = next_rowid (map f_Food_ID (food_listings (store s))), f_Food_Name = food_name,
           f_Quantity = qty, f_Expiry_Date = Some exp_date, f_Provider_ID = Some pid,
           f_Provider_Type = Some provider_type, f_Location = Some location,
           f_Food_Type = Some ftype, f_Meal_Type = Some mtype,
           f_Days_To_Expiry = days_to_exp exp_date today,
           f_Quantity_Category = qty_cat qty\<rparr>]"
    by auto
  then show ?thesis
    using qty_cat_thresholds [of qty] by simp
qed

theorem add_food_stores_quantity_category_witness:
  "f_Quantity_Category (last (food_listings (store (snd (bread_run 3))))) = ''Small'' \<and>
   f_Quantity_Category (last (food_listings (store (snd (bread_run 5))))) = ''Medium'' \<and>
   f_Quantity_Category (last (food_listings (store (snd (bread_run 10))))) = ''Medium'' \<and>
   f_Quantity_Category (last (food_listings (store (snd (bread_run 20))))) = ''Medium'' \<and>
   f_Quantity_Category (last (food_listings (store (snd (bread_run 25))))) = ''Large'' \<and>
   length (food_listings (store (snd (bread_run 25)))) = Suc (length (food_listings sample_db))"
proof -
  have ok: "conn_ok fresh_session"
    by (simp add: conn_ok_def fresh_session_def)
  have r: "add_food ''Acme Grocers'' (Some 1) ''Bread'' q 20098 [] ''Springfield'' ''Vegetarian''
       ''Breakfast'' (20098 * ns_per_day + 50400000000000) fresh_session =
       (fst (bread_run q), snd (bread_run q))" for q
    by (simp add: bread_run_def)
  have t: "(f_Quantity_Category (last (food_listings (store (snd (bread_run q))))) = ''Small'') = (q < 5) \<and>
     (f_Quantity_Category (last (food_listings (store (snd (bread_run q))))) = ''Medium'') = (5 \<le> q \<and> q \<le> 20) \<and>
     (f_Quantity_Category (last (food_listings (store (snd (bread_run q))))) = ''Large'') = (20 < q) \<and>
     food_listings (store (snd (bread_run q))) =
       food_listings (store fresh_session) @ [last (food_listings (store (snd (bread_run q))))]" for q
    using add_food_stores_quantity_category [OF ok _ _ _ r [of q]] by simp
  have "length (food_listings (store (snd (bread_run 25)))) = Suc (length (food_listings sample_db))"
    using t [of 25] by (metis length_append_singleton fresh_session_def app_state.select_convs(1))
  then show ?thesis
    using t [of 3] t [of 5] t [of 10] t [of 20] t [of 25] by simp
qed

subsection \<open>Create Food Listing: days to expiry, and Delete Provider\<close>

lemma add_food_days_to_expiry:
  assumes "conn_ok s" and "pid \<noteq> 0" and "food_name \<noteq> []" and "location \<noteq> []"
  shows "f_Days_To_Expiry (last (food_listings (store (snd
      (add_food provider (Some pid) food_name qty exp_date provider_type location ftype mtype today s))))) =
    exp_date - date_of today - (if today mod ns_per_day = 0 then 0 else 1)"
  by (simp add: add_food_accept [OF assms] days_to_exp_floor)

lemma update_quantity_keeps_days_to_expiry:
  "map f_Days_To_Expiry (food_listings (store (snd (update_quantity new_qty fid s)))) =
     map f_Days_To_Expiry (food_listings (store s))"
  by (simp add: update_quantity_def run_write_def get_conn_def comp_def split: option.splits)

text \<open>
  C6, evaluated where the code departs from it. A listing whose expiry date is the day it
  is created, submitted at 14:00, is stored with Days_To_Expiry -1, although expiry date
  minus creation date is 0: line 335 subtracts the current date and time, not the current
  date, and \<^verbatim>\<open>.days\<close> rounds the negative fraction of a day down.
\<close>

theorem add_food_same_day_stores_minus_one:
  "f_Days_To_Expiry (last (food_listings (store (snd (bread_run 15))))) = - 1 \<and>
   f_Expiry_Date (last (food_listings (store (snd (bread_run 15))))) = Some 20098 \<and>
   date_of (20098 * ns_per_day + 50400000000000) = 20098"
proof -
  have ok: "conn_ok fresh_session"
    by (simp add: conn_ok_def fresh_session_def)
  have "bread_run 15 = add_food ''Acme Grocers'' (Some 1) ''Bread'' 15 20098 [] ''Springfield''
      ''Vegetarian'' ''Breakfast'' (20098 * ns_per_day + 50400000000000) fresh_session"
    by (simp add: bread_run_def)
  then have "food_listings (store (snd (bread_run 15))) = food_listings (store fresh_session) @
      [\<lparr>f_Food_ID = next_rowid (map f_Food_ID (food_listings (store fresh_session))),
        f_Food_Name = ''Bread'', f_Quantity = 15, f_Expiry_Date = Some 20098, f_Provider_ID = Some 1,
        f_Provider_Type = Some [], f_Location = Some ''Springfield'',
        f_Food_Type = Some ''Vegetarian'', f_Meal_Type = Some ''Breakfast'',
        f_Days_To_Expiry = days_to_exp 20098 (20098 * ns_per_day + 50400000000000),
        f_Quantity_Category = qty_cat 15\<rparr>]"
    using add_food_accept [OF ok, of 1 "''Bread''" "''Springfield''"] by simp
  moreover have "days_to_exp 20098 (20098 * ns_per_day + 50400000000000) = - 1"
    by (simp add: days_to_exp_def timedelta_days_def to_datetime_def ns_per_day_def)
  moreover have "date_of (20098 * ns_per_day + 50400000000000) = 20098"
    by (simp add: date_of_def ns_per_day_def)
  ultimately show ?thesis by simp
qed

lemma delete_provider_unenforced:
  assumes "conn_ok s"
  shows "delete_provider pid s =
     ([St_success ''Provider deleted.''],
      (snd (get_conn s))\<lparr>store := (store s)\<lparr>providers :=
          filter (\<lambda>p. p_Provider_ID p \<noteq> pid) (providers (store s))\<rparr>, cache := Map.empty\<rparr>)"
proof -
  obtain conn s1 where g: "get_conn s = (conn, s1)" by (cases "get_conn s")
  have st: "store s1 = store s" using get_conn_store [of s] g by simp
  have "\<not> enforced conn (store s)"
    using conn_ok_unenforced [OF assms, of "store s"] g by simp
  with g st show ?thesis
    by (simp add: delete_provider_def run_write_def)
qed

lemma delete_provider_enforced:
  assumes "session_conn s = Some \<lparr>foreign_keys = True\<rparr>" and "fk_declared (store s)"
    and "pid \<in> set (map p_Provider_ID (providers (store s)))"
    and "list_ex (\<lambda>f. f_Provider_ID f = Some pid) (food_listings (store s))"
  shows "delete_provider pid s =
     ([St_error ''Delete failed (likely FK constraint): FOREIGN KEY constraint failed''], s)"
  using assms by (simp add: delete_provider_def run_write_def get_conn_def enforced_def)

lemma conn_ok_get_conn: "conn_ok s \<Longrightarrow> conn_ok (snd (get_conn s))"
  by (auto simp: conn_ok_def get_conn_def)

lemma conn_ok_run_write: "conn_ok s \<Longrightarrow> conn_ok (snd (run_write stmt s))"
  by (auto simp: conn_ok_def run_write_def get_conn_def split: sum.splits prod.splits)

lemma conn_ok_cache_update: "conn_ok (s\<lparr>cache := c\<rparr>) = conn_ok s"
  by (simp add: conn_ok_def)

lemma run_write_conn:
  "run_write stmt s = (r, s1) \<Longrightarrow> conn_ok s \<Longrightarrow> conn_ok s1"
  using conn_ok_run_write [of s stmt] by simp

lemma conn_ok_handle: "conn_ok s \<Longrightarrow> conn_ok (snd (handle a s))"
  by (cases a)
    (auto simp: add_provider_def add_food_def add_claim_def update_contact_def update_quantity_def
      update_status_def delete_provider_def delete_food_def delete_claim_def conn_ok_cache_update
      split: prod.splits sum.splits option.splits dest: run_write_conn)

lemma conn_ok_fetch_df: "conn_ok s \<Longrightarrow> conn_ok (snd (fetch_df rd now sql params s))"
  by (auto simp: conn_ok_def fetch_df_def get_conn_def Let_def split: option.splits prod.splits)

text \<open>
  C2, evaluated where the code departs from it. In a new session over a database whose
  schema declares the foreign keys, provider 1 owns a listing. Delete Provider reports
  "Provider deleted.", the provider row is gone and the listing stays, now referring to
  no provider: the connection that \<^verbatim>\<open>get_conn\<close> opens never enforces foreign keys, so
  the store raises nothing for the \<^verbatim>\<open>try\<close> to catch.
\<close>

theorem delete_provider_owning_listing_succeeds:
  "delete_provider 1 fresh_session =
     ([St_success ''Provider deleted.''],
      \<lparr>store = \<lparr>fk_declared = True, providers = [], receivers = [],
          food_listings = [sample_food], claims = []\<rparr>,
        session_conn = Some sqlite3_connect, cache = Map.empty\<rparr>) \<and>
   providers (store fresh_session) = [acme] \<and> p_Provider_ID acme = 1 \<and>
   food_listings (store fresh_session) = [sample_food] \<and> f_Provider_ID sample_food = Some 1 \<and>
   fk_declared (store fresh_session)"
  by (simp add: delete_provider_def run_write_def get_conn_def enforced_def sqlite3_connect_def
      fresh_session_def sample_db_def acme_def sample_food_def)

subsection \<open>Query 5: expiring soon\<close>






subsection \<open>Query 14: providers with zero claims\<close>

lemma left_join_row:
  "set (case filter P ys of [] \<Rightarrow> [(x, None)] | m # ms \<Rightarrow> map (\<lambda>y. (x, Some y)) (m # ms)) =
     (if filter P ys = [] then {(x, None)} else (\<lambda>y. (x, Some y)) ` set (filter P ys))"
  by (cases "filter P ys") auto

lemma in_left_join:
  "((a, b) \<in> set (left_join on xs ys)) =
     (a \<in> set xs \<and> (case b of None \<Rightarrow> \<forall>y \<in> set ys. \<not> on a y | Some y \<Rightarrow> y \<in> set ys \<and> on a y))"
  unfolding left_join_def set_concat set_map
  by (auto simp: left_join_row filter_empty_conv split: option.splits if_splits)

lemma set_group_by:
  "set (group_by key rows) = (\<lambda>k. (k, filter (\<lambda>r. key r = k) rows)) ` key ` set rows"
  by (simp add: group_by_def)

lemma having_keys:
  "map fst (filter (\<lambda>kg. Q (snd kg)) (group_by key rows)) =
     filter (\<lambda>k. Q (filter (\<lambda>r. key r = k) rows)) (remdups (map key rows))"
  by (simp add: group_by_def filter_map comp_def)

lemma distinct_group_keys: "distinct (map fst (group_by key rows))"
  by (simp add: group_by_def comp_def)

lemma in_q14_joined:
  "(((p, fo), co) \<in> set (q14_joined d)) =
     (p \<in> set (providers d) \<and>
      (case fo of
         None \<Rightarrow> (\<forall>f \<in> set (food_listings d). f_Provider_ID f \<noteq> Some (p_Provider_ID p)) \<and> co = None
       | Some f \<Rightarrow> f \<in> set (food_listings d) \<and> f_Provider_ID f = Some (p_Provider_ID p) \<and>
           (case co of
              None \<Rightarrow> \<forall>c \<in> set (claims d). c_Food_ID c \<noteq> Some (f_Food_ID f)
            | Some c \<Rightarrow> c \<in> set (claims d) \<and> c_Food_ID c = Some (f_Food_ID f))))"
  by (auto simp: q14_joined_def in_left_join split: option.splits)

lemma q14_keys:
  "(\<lambda>r. (p_Provider_ID (fst (fst r)), p_Name (fst (fst r)))) ` set (q14_joined d) =
     (\<lambda>p. (p_Provider_ID p, p_Name p)) ` set (providers d)"
proof (intro equalityI subsetI)
  fix k assume "k \<in> (\<lambda>r. (p_Provider_ID (fst (fst r)), p_Name (fst (fst r)))) ` set (q14_joined d)"
  then obtain p fo co where "((p, fo), co) \<in> set (q14_joined d)"
    and "k = (p_Provider_ID p, p_Name p)" by auto
  then show "k \<in> (\<lambda>p. (p_Provider_ID p, p_Name p)) ` set (providers d)"
    by (auto simp: in_q14_joined)
next
  fix k assume "k \<in> (\<lambda>p. (p_Provider_ID p, p_Name p)) ` set (providers d)"
  then obtain p where p: "p \<in> set (providers d)" and k: "k = (p_Provider_ID p, p_Name p)" by auto
  have "\<exists>fo co. ((p, fo), co) \<in> set (q14_joined d)"
  proof (cases "\<exists>f \<in> set (food_listings d). f_Provider_ID f = Some (p_Provider_ID p)")
    case False
    then have "((p, None), None) \<in> set (q14_joined d)"
      using p by (auto simp: in_q14_joined)
    then show ?thesis by blast
  next
    case True
    then obtain f where f: "f \<in> set (food_listings d)" "f_Provider_ID f = Some (p_Provider_ID p)"
      by blast
    show ?thesis
    proof (cases "\<exists>c \<in> set (claims d). c_Food_ID c = Some (f_Food_ID f)")
      case False
      then have "((p, Some f), None) \<in> set (q14_joined d)"
        using p f by (auto simp: in_q14_joined)
      then show ?thesis by blast
    next
      case True
      then obtain c where "c \<in> set (claims d)" "c_Food_ID c = Some (f_Food_ID f)" by blast
      then have "((p, Some f), Some c) \<in> set (q14_joined d)"
        using p f by (auto simp: in_q14_joined)
      then show ?thesis by blast
    qed
  qed
  then obtain fo co where "((p, fo), co) \<in> set (q14_joined d)" by blast
  then show "k \<in> (\<lambda>r. (p_Provider_ID (fst (fst r)), p_Name (fst (fst r)))) ` set (q14_joined d)"
    using k by force
qed

lemma q14_group_claimed:
  assumes "p \<in> set (providers d)"
  shows "(filter (\<lambda>r. snd r \<noteq> None)
            (filter (\<lambda>r. (p_Provider_ID (fst (fst r)), p_Name (fst (fst r))) =
                         (p_Provider_ID p, p_Name p)) (q14_joined d)) = []) =
         (\<not> has_claim d (p_Provider_ID p))"
proof
  assume e: "filter (\<lambda>r. snd r \<noteq> None)
            (filter (\<lambda>r. (p_Provider_ID (fst (fst r)), p_Name (fst (fst r))) =
                         (p_Provider_ID p, p_Name p)) (q14_joined d)) = []"
  show "\<not> has_claim d (p_Provider_ID p)"
  proof
    assume "has_claim d (p_Provider_ID p)"
    then obtain f c where "f \<in> set (food_listings d)" "f_Provider_ID f = Some (p_Provider_ID p)"
      "c \<in> set (claims d)" "c_Food_ID c = Some (f_Food_ID f)"
      by (auto simp: has_claim_def list_ex_iff)
    then have "((p, Some f), Some c) \<in> set (q14_joined d)"
      using assms by (auto simp: in_q14_joined)
    with e show False
      by (auto simp: filter_empty_conv)
  qed
next
  assume n: "\<not> has_claim d (p_Provider_ID p)"
  show "filter (\<lambda>r. snd r \<noteq> None)
            (filter (\<lambda>r. (p_Provider_ID (fst (fst r)), p_Name (fst (fst r))) =
                         (p_Provider_ID p, p_Name p)) (q14_joined d)) = []"
  proof (rule ccontr)
    assume "\<not> ?thesis"
    then obtain q fo c where r: "((q, fo), Some c) \<in> set (q14_joined d)"
      and k: "p_Provider_ID q = p_Provider_ID p"
      by (fastforce simp: filter_empty_conv)
    from r obtain f where "f \<in> set (food_listings d)" "f_Provider_ID f = Some (p_Provider_ID q)"
      "c \<in> set (claims d)" "c_Food_ID c = Some (f_Food_ID f)"
      by (auto simp: in_q14_joined split: option.splits)
    with k have "has_claim d (p_Provider_ID p)"
      by (auto simp: has_claim_def list_ex_iff)
    with n show False by simp
  qed
qed

text \<open>
  C5. Query 14 returns one row (identity, name) for each provider against none of whose
  listings a claim exists, and for no other provider: a provider with listings and no
  claim on any of them is returned, a provider with no listing is returned, and a provider
  with a claim on one of its listings is not. No row is repeated and the rows are in
  ascending order of name.
\<close>

theorem query_14_providers_without_claims:
  "set (query_14 d) =
     (\<lambda>p. (p_Provider_ID p, p_Name p)) `
       {p. p \<in> set (providers d) \<and> \<not> has_claim d (p_Provider_ID p)} \<and>
   distinct (query_14 d) \<and>
   sorted (map snd (query_14 d))"
proof -
  let ?key = "\<lambda>r :: (provider \<times> food_listing option) \<times> claim option.
      (p_Provider_ID (fst (fst r)), p_Name (fst (fst r)))"
  have q: "query_14 d =
      sort_key snd (filter (\<lambda>k. length (filter (\<lambda>r. snd r \<noteq> None)
          (filter (\<lambda>r. ?key r = k) (q14_joined d))) = 0) (remdups (map ?key (q14_joined d))))"
    unfolding query_14_def
    by (simp only: having_keys [of "\<lambda>g. length (filter (\<lambda>r. snd r \<noteq> None) g) = 0"])
  have "set (query_14 d) =
      {k. k \<in> ?key ` set (q14_joined d) \<and>
          filter (\<lambda>r. snd r \<noteq> None) (filter (\<lambda>r. ?key r = k) (q14_joined d)) = []}"
    unfolding q by auto
  also have "\<dots> = {k. k \<in> (\<lambda>p. (p_Provider_ID p, p_Name p)) ` set (providers d) \<and>
          filter (\<lambda>r. snd r \<noteq> None) (filter (\<lambda>r. ?key r = k) (q14_joined d)) = []}"
    by (simp only: q14_keys)
  also have "\<dots> = (\<lambda>p. (p_Provider_ID p, p_Name p)) `
       {p. p \<in> set (providers d) \<and> \<not> has_claim d (p_Provider_ID p)}"
    using q14_group_claimed [of _ d] by (auto simp: image_iff)
  finally have a: "set (query_14 d) =
     (\<lambda>p. (p_Provider_ID p, p_Name p)) `
       {p. p \<in> set (providers d) \<and> \<not> has_claim d (p_Provider_ID p)}" .
  have "distinct (map fst (filter (\<lambda>kg. length (filter (\<lambda>r. snd r \<noteq> None) (snd kg)) = 0)
      (group_by ?key (q14_joined d))))"
    using distinct_group_keys [of ?key "q14_joined d"] by (rule distinct_map_filter)
  then have b: "distinct (query_14 d)"
    by (simp add: query_14_def)
  have c: "sorted (map snd (query_14 d))"
    by (simp add: query_14_def)
  from a b c show ?thesis by blast
qed

theorem query_14_providers_without_claims_witness:
  "set (query_14 catalog_db) = {(1, ''Acme Grocers''), (2, ''Lonely Diner'')} \<and>
   has_claim catalog_db 3 \<and> \<not> has_claim catalog_db 1 \<and> \<not> has_claim catalog_db 2"
proof -
  have ps: "providers catalog_db = [acme, lonely, busy]"
    by (simp add: catalog_db_def)
  have ids: "p_Provider_ID acme = 1" "p_Provider_ID lonely = 2" "p_Provider_ID busy = 3"
    "p_Name acme = ''Acme Grocers''" "p_Name lonely = ''Lonely Diner''"
    by (simp_all add: acme_def lonely_def busy_def)
  have h3: "has_claim catalog_db 3"
    by (simp add: has_claim_def catalog_db_def sample_food_def sample_food2_def rice_claim_def)
  have h1: "\<not> has_claim catalog_db 1"
    by (simp add: has_claim_def catalog_db_def sample_food_def sample_food2_def rice_claim_def)
  have h2: "\<not> has_claim catalog_db 2"
    by (simp add: has_claim_def catalog_db_def sample_food_def sample_food2_def rice_claim_def)
  have "{p. p \<in> set (providers catalog_db) \<and> \<not> has_claim catalog_db (p_Provider_ID p)} =
      {acme, lonely}"
    using h1 h2 h3 ids by (auto simp: ps)
  then have "set (query_14 catalog_db) = {(1, ''Acme Grocers''), (2, ''Lonely Diner'')}"
    using query_14_providers_without_claims [of catalog_db] by (simp add: ids)
  with h1 h2 h3 show ?thesis by simp
qed

subsection \<open>Query 10: claim fulfillment rate per provider\<close>

lemma concat_map_concat:
  "concat (map g (concat xss)) = concat (map (\<lambda>xs. concat (map g xs)) xss)"
  by (induction xss) auto

lemma remdups_replicate_append:
  "a \<notin> set rest \<Longrightarrow> remdups (replicate n a @ rest) = (if n = 0 then [] else [a]) @ remdups rest"
  by (induction n) auto

lemma remdups_blocks:
  "distinct (map k ps) \<Longrightarrow>
     remdups (concat (map (\<lambda>p. replicate (n p) (k p)) ps)) = map k (filter (\<lambda>p. 0 < n p) ps)"
proof (induction ps)
  case Nil
  show ?case by simp
next
  case (Cons p ps)
  have "k p \<notin> set (concat (map (\<lambda>p. replicate (n p) (k p)) ps))"
    using Cons.prems by auto
  then show ?case
    using Cons by (simp add: remdups_replicate_append)
qed

lemma filter_blocks:
  assumes "distinct (map k ps)" and "p \<in> set ps"
    and "\<And>q r. r \<in> set (rows q) \<Longrightarrow> key r = k q"
  shows "filter (\<lambda>r. key r = k p) (concat (map rows ps)) = rows p"
  using assms(1,2)
proof (induction ps)
  case Nil
  then show ?case by simp
next
  case (Cons q ps)
  have own: "filter (\<lambda>r. key r = k q) (rows q) = rows q"
    using assms(3) by (simp add: filter_id_conv)
  have other: "filter (\<lambda>r. key r = k p) (rows q') = []" if "k q' \<noteq> k p" for q'
    using assms(3) that by (auto simp: filter_empty_conv)
  show ?case
  proof (cases "p = q")
    case True
    have "\<forall>q' \<in> set ps. k q' \<noteq> k q"
    proof
      fix q' assume "q' \<in> set ps"
      then have "k q' \<in> k ` set ps" by simp
      moreover have "k q \<notin> k ` set ps" using Cons.prems(1) by simp
      ultimately show "k q' \<noteq> k q" by metis
    qed
    then have "filter (\<lambda>r. key r = k q) (concat (map rows ps)) = []"
      using assms(3) by (fastforce simp: filter_empty_conv)
    with True own show ?thesis by simp
  next
    case False
    with Cons.prems have p: "p \<in> set ps" and "k q \<noteq> k p" by auto
    with Cons.IH Cons.prems(1) other [of q] show ?thesis by simp
  qed
qed

lemma map_key_blocks:
  assumes "\<And>q r. r \<in> set (rows q) \<Longrightarrow> key r = k q"
  shows "map key (concat (map rows ps)) = concat (map (\<lambda>p. replicate (length (rows p)) (k p)) ps)"
proof (induction ps)
  case Nil
  show ?case by simp
next
  case (Cons p ps)
  have "map key (rows p) = replicate (length (rows p)) (k p)"
    using assms by (simp add: map_replicate_const [symmetric] cong: map_cong)
  with Cons show ?case by simp
qed

lemma group_by_blocks:
  assumes "distinct (map k ps)" and "\<And>q r. r \<in> set (rows q) \<Longrightarrow> key r = k q"
  shows "group_by key (concat (map rows ps)) = map (\<lambda>p. (k p, rows p)) (filter (\<lambda>p. rows p \<noteq> []) ps)"
proof -
  have "remdups (map key (concat (map rows ps))) = map k (filter (\<lambda>p. rows p \<noteq> []) ps)"
    using remdups_blocks [OF assms(1), of "\<lambda>p. length (rows p)"]
    by (simp add: map_key_blocks [of rows key k, OF assms(2)])
  moreover have "filter (\<lambda>r. key r = k p) (concat (map rows ps)) = rows p" if "p \<in> set ps" for p
    using filter_blocks [OF assms(1) that, of rows key] assms(2) by blast
  ultimately show ?thesis
    by (simp add: group_by_def comp_def cong: map_cong)
qed

lemma matches_at_most_one:
  "distinct (map g fs) \<Longrightarrow> length (filter (\<lambda>f. g f = x) fs) = (if x \<in> g ` set fs then 1 else 0)"
  by (induction fs) auto

lemma sum_matches:
  assumes "distinct (map g fs)"
  shows "sum_list (map (\<lambda>f. length (filter (\<lambda>c. P c \<and> h c = Some (g f)) cs)) fs) =
     length (filter (\<lambda>c. P c \<and> (\<exists>f \<in> set fs. h c = Some (g f))) cs)"
proof (induction cs)
  case Nil
  show ?case by simp
next
  case (Cons c cs)
  have "sum_list (map (\<lambda>f. length (filter (\<lambda>c. P c \<and> h c = Some (g f)) (c # cs))) fs) =
      sum_list (map (\<lambda>f. (if P c \<and> h c = Some (g f) then 1 else 0) +
                          length (filter (\<lambda>c. P c \<and> h c = Some (g f)) cs)) fs)"
    by (rule arg_cong [where f = sum_list]) (rule map_cong, auto)
  also have "\<dots> = sum_list (map (\<lambda>f. if P c \<and> h c = Some (g f) then 1 else 0) fs) +
      sum_list (map (\<lambda>f. length (filter (\<lambda>c. P c \<and> h c = Some (g f)) cs)) fs)"
    by (simp add: sum_list_addf)
  also have "sum_list (map (\<lambda>f. if P c \<and> h c = Some (g f) then 1 else 0) fs) =
      length (filter (\<lambda>f. P c \<and> h c = Some (g f)) fs)"
    by (induction fs) auto
  also have "length (filter (\<lambda>f. P c \<and> h c = Some (g f)) fs) =
      (if P c \<and> (\<exists>f \<in> set fs. h c = Some (g f)) then 1 else 0)"
  proof (cases "h c")
    case None
    then show ?thesis by simp
  next
    case (Some x)
    have "filter (\<lambda>f. P c \<and> Some x = Some (g f)) fs = (if P c then filter (\<lambda>f. g f = x) fs else [])"
      by (induction fs) auto
    with Some matches_at_most_one [OF assms, of x] show ?thesis by auto
  qed
  finally show ?case using Cons by simp
qed

lemma q10_joined_blocks: "q10_joined d = concat (map (q10_rows_of d) (providers d))"
proof -
  have "q10_joined d = concat (map (q10_claim_rows d)
      (concat (map (\<lambda>p. map (\<lambda>f. (p, f)) (listings_owned d p)) (providers d))))"
    by (simp add: q10_joined_def left_join_def inner_join_def q10_claim_rows_def [abs_def]
        listings_owned_def [abs_def])
  also have "\<dots> = concat (map (\<lambda>ps. concat (map (q10_claim_rows d) ps))
      (map (\<lambda>p. map (\<lambda>f. (p, f)) (listings_owned d p)) (providers d)))"
    by (rule concat_map_concat)
  also have "\<dots> = concat (map (q10_rows_of d) (providers d))"
    by (simp add: q10_rows_of_def [abs_def] comp_def)
  finally show ?thesis .
qed

lemma q10_claim_rows_fst: "r \<in> set (q10_claim_rows d pf) \<Longrightarrow> fst r = pf"
  by (auto simp: q10_claim_rows_def split: list.splits)

lemma q10_claim_rows_ne: "q10_claim_rows d pf \<noteq> []"
  by (simp add: q10_claim_rows_def split: list.splits)

lemma q10_rows_of_provider: "r \<in> set (q10_rows_of d p) \<Longrightarrow> fst (fst r) = p"
  by (auto simp: q10_rows_of_def dest: q10_claim_rows_fst)

lemma q10_rows_of_ne: "(q10_rows_of d p \<noteq> []) = (listings_owned d p \<noteq> [])"
  by (cases "listings_owned d p") (simp_all add: q10_rows_of_def q10_claim_rows_ne)

lemma distinct_provider_keys:
  "distinct (map p_Provider_ID ps) \<Longrightarrow> distinct (map (\<lambda>p. (p_Provider_ID p, p_Name p)) ps)"
  by (induction ps) auto

lemma q10_groups:
  assumes "distinct (map p_Provider_ID (providers d))"
  shows "group_by (\<lambda>r. (p_Provider_ID (fst (fst r)), p_Name (fst (fst r)))) (q10_joined d) =
     map (\<lambda>p. ((p_Provider_ID p, p_Name p), q10_rows_of d p))
       (filter (\<lambda>p. listings_owned d p \<noteq> []) (providers d))"
proof -
  have key: "(p_Provider_ID (fst (fst r)), p_Name (fst (fst r))) = (p_Provider_ID q, p_Name q)"
    if "r \<in> set (q10_rows_of d q)" for q r
    using q10_rows_of_provider [OF that] by simp
  show ?thesis
    unfolding q10_joined_blocks
    using group_by_blocks [OF distinct_provider_keys [OF assms], of "q10_rows_of d"
        "\<lambda>r. (p_Provider_ID (fst (fst r)), p_Name (fst (fst r)))"] key
    by (simp add: q10_rows_of_ne)
qed

lemma q10_count_distinct:
  assumes "distinct (map f_Food_ID (food_listings d))"
  shows "count_distinct_food (q10_rows_of d p) = length (listings_owned d p)"
proof -
  have dis: "distinct (map f_Food_ID (listings_owned d p))"
    using assms unfolding listings_owned_def by (rule distinct_map_filter)
  have key: "f_Food_ID (snd (fst r)) = f_Food_ID f" if "r \<in> set (q10_claim_rows d (p, f))" for f r
    using q10_claim_rows_fst [OF that] by simp
  have "map (\<lambda>r. f_Food_ID (snd (fst r))) (q10_rows_of d p) =
      concat (map (\<lambda>f. replicate (length (q10_claim_rows d (p, f))) (f_Food_ID f)) (listings_owned d p))"
    unfolding q10_rows_of_def
    using map_key_blocks [of "\<lambda>f. q10_claim_rows d (p, f)" "\<lambda>r. f_Food_ID (snd (fst r))" f_Food_ID
        "listings_owned d p"] key by blast
  then have "remdups (map (\<lambda>r. f_Food_ID (snd (fst r))) (q10_rows_of d p)) =
      map f_Food_ID (filter (\<lambda>f. 0 < length (q10_claim_rows d (p, f))) (listings_owned d p))"
    using remdups_blocks [OF dis, of "\<lambda>f. length (q10_claim_rows d (p, f))"] by simp
  then show ?thesis
    by (simp add: count_distinct_food_def q10_claim_rows_ne)
qed

lemma sum_completed_concat: "sum_completed (concat gs) = sum_list (map sum_completed gs)"
  by (induction gs) (simp_all add: sum_completed_def)

lemma sum_completed_claim_rows:
  "sum_completed (q10_claim_rows d (p, f)) =
     int (length (filter (\<lambda>c. c_Status c = ''Completed'' \<and> c_Food_ID c = Some (f_Food_ID f)) (claims d)))"
proof -
  have gen: "sum_completed (map (\<lambda>c. ((p, f), Some c)) cs) =
      int (length (filter (\<lambda>c. c_Status c = ''Completed'') cs))" for cs :: "claim list"
    by (induction cs) (simp_all add: sum_completed_def)
  have "sum_completed (case F of [] \<Rightarrow> [((p, f), None)] | m # ms \<Rightarrow> map (\<lambda>c. ((p, f), Some c)) (m # ms)) =
      int (length (filter (\<lambda>c. c_Status c = ''Completed'') F))" for F :: "claim list"
  proof (cases F)
    case Nil
    then show ?thesis by (simp add: sum_completed_def)
  next
    case (Cons a list)
    then show ?thesis using gen [of "a # list"] by (simp only: list.case)
  qed
  then have "sum_completed (q10_claim_rows d (p, f)) =
      int (length (filter (\<lambda>c. c_Status c = ''Completed'')
        (filter (\<lambda>c. c_Food_ID c = Some (f_Food_ID f)) (claims d))))"
    by (simp add: q10_claim_rows_def)
  then show ?thesis by (simp add: conj_commute)
qed

lemma q10_sum_completed:
  assumes "distinct (map f_Food_ID (food_listings d))"
  shows "sum_completed (q10_rows_of d p) = int (length (completed_claims d p))"
proof -
  have dis: "distinct (map f_Food_ID (listings_owned d p))"
    using assms unfolding listings_owned_def by (rule distinct_map_filter)
  have "sum_completed (q10_rows_of d p) =
      int (sum_list (map (\<lambda>f. length (filter (\<lambda>c. c_Status c = ''Completed'' \<and>
          c_Food_ID c = Some (f_Food_ID f)) (claims d))) (listings_owned d p)))"
    by (simp add: q10_rows_of_def sum_completed_concat comp_def sum_completed_claim_rows
        sum_list_of_nat [symmetric])
  also have "\<dots> = int (length (filter (\<lambda>c. c_Status c = ''Completed'' \<and>
      (\<exists>f \<in> set (listings_owned d p). c_Food_ID c = Some (f_Food_ID f))) (claims d)))"
    by (simp only: sum_matches [OF dis])
  finally show ?thesis
    by (simp add: completed_claims_def list_ex_iff)
qed

lemma q10_rate:
  assumes "distinct (map f_Food_ID (food_listings d))" and "listings_owned d p \<noteq> []"
  shows "fulfillment_rate (q10_rows_of d p) = Some (provider_rate d p)"
  using assms(2)
  by (simp add: fulfillment_rate_def nullif0_def q10_count_distinct [OF assms(1)]
      q10_sum_completed [OF assms(1)] provider_rate_def)

lemma q10_rows:
  assumes "distinct (map p_Provider_ID (providers d))" and "distinct (map f_Food_ID (food_listings d))"
  shows "map (\<lambda>kg. (snd (fst kg), fulfillment_rate (snd kg)))
      (group_by (\<lambda>r. (p_Provider_ID (fst (fst r)), p_Name (fst (fst r)))) (q10_joined d)) =
    map (\<lambda>p. (p_Name p, Some (provider_rate d p)))
      (filter (\<lambda>p. listings_owned d p \<noteq> []) (providers d))"
proof -
  have "map (\<lambda>p. (p_Name p, fulfillment_rate (q10_rows_of d p)))
      (filter (\<lambda>p. listings_owned d p \<noteq> []) (providers d)) =
    map (\<lambda>p. (p_Name p, Some (provider_rate d p)))
      (filter (\<lambda>p. listings_owned d p \<noteq> []) (providers d))"
    by (rule map_cong) (simp_all add: q10_rate [OF assms(2)])
  then show ?thesis
    by (simp add: q10_groups [OF assms(1)] comp_def)
qed

text \<open>
  C3 (as amended). With identities that are primary keys, Query 10 returns exactly one row
  for each provider that owns at least one listing, and none for a provider that owns no
  listing. The row carries the provider's name and 100 times the number of completed
  claims against its listings divided by the number of its listings, rounded to
  hundredths. No rate is NULL, no division by zero is evaluated, and the rows are in
  descending order of rate.
\<close>

theorem query_10_fulfillment_rates:
  "distinct (map p_Provider_ID (providers d)) \<Longrightarrow> distinct (map f_Food_ID (food_listings d)) \<Longrightarrow>
     query_10 d =
       rev (sort_key snd (map (\<lambda>p. (p_Name p, Some (provider_rate d p)))
         (filter (\<lambda>p. listings_owned d p \<noteq> []) (providers d)))) \<and>
     length (query_10 d) = length (filter (\<lambda>p. listings_owned d p \<noteq> []) (providers d)) \<and>
     None \<notin> snd ` set (query_10 d) \<and>
     sorted (rev (map snd (query_10 d)))"
proof -
  assume pk: "distinct (map p_Provider_ID (providers d))" "distinct (map f_Food_ID (food_listings d))"
  have a: "query_10 d =
       rev (sort_key snd (map (\<lambda>p. (p_Name p, Some (provider_rate d p)))
         (filter (\<lambda>p. listings_owned d p \<noteq> []) (providers d))))"
    unfolding query_10_def by (simp only: q10_rows [OF pk])
  have b: "length (query_10 d) = length (filter (\<lambda>p. listings_owned d p \<noteq> []) (providers d))"
    unfolding a by simp
  have c: "None \<notin> snd ` set (query_10 d)"
    unfolding a by auto
  have "rev (map snd (query_10 d)) =
      map snd (sort_key snd (map (\<lambda>p. (p_Name p, Some (provider_rate d p)))
         (filter (\<lambda>p. listings_owned d p \<noteq> []) (providers d))))"
    unfolding a by (simp add: rev_map)
  then have e: "sorted (rev (map snd (query_10 d)))"
    by (simp only: sorted_sort_key)
  from a b c e show ?thesis by blast
qed

text \<open>
  The claim as first stated gives a provider without listings a result row with a NULL
  rate. The inner join of the query drops such a provider: for a database whose only
  provider owns no listing the result has no row at all.
\<close>

theorem query_10_no_row_without_listings:
  "query_10 \<lparr>fk_declared = True, providers = [lonely], receivers = [], food_listings = [],
     claims = []\<rparr> = [] \<and>
   listings_owned \<lparr>fk_declared = True, providers = [lonely], receivers = [], food_listings = [],
     claims = []\<rparr> lonely = []"
  by (simp add: query_10_def q10_joined_def inner_join_def left_join_def group_by_def
      listings_owned_def)

theorem query_10_fulfillment_rates_witness:
  "query_10 catalog_db = [(''Busy Bakery'', Some 50), (''Acme Grocers'', Some 0)] \<and>
   providers catalog_db = [acme, lonely, busy] \<and>
   length (listings_owned catalog_db acme) = 1 \<and> length (listings_owned catalog_db lonely) = 0 \<and>
   length (listings_owned catalog_db busy) = 2 \<and>
   length (completed_claims catalog_db acme) = 0 \<and> length (completed_claims catalog_db busy) = 1"
proof -
  have pk: "distinct (map p_Provider_ID (providers catalog_db))"
    "distinct (map f_Food_ID (food_listings catalog_db))"
    by (simp_all add: catalog_db_def acme_def lonely_def busy_def sample_food_def sample_food2_def)
  have ps: "providers catalog_db = [acme, lonely, busy]"
    by (simp add: catalog_db_def)
  have own: "length (listings_owned catalog_db acme) = 1" "length (listings_owned catalog_db lonely) = 0"
    "length (listings_owned catalog_db busy) = 2"
    by (simp_all add: listings_owned_def catalog_db_def acme_def lonely_def busy_def sample_food_def
        sample_food2_def)
  have cc: "length (completed_claims catalog_db acme) = 0" "length (completed_claims catalog_db busy) = 1"
    by (simp_all add: completed_claims_def listings_owned_def catalog_db_def acme_def busy_def
        sample_food_def sample_food2_def rice_claim_def)
  have ne: "listings_owned catalog_db acme \<noteq> []" "listings_owned catalog_db lonely = []"
    "listings_owned catalog_db busy \<noteq> []"
    using own by auto
  have rates: "provider_rate catalog_db acme = 0" "provider_rate catalog_db busy = 50"
    by (simp_all add: provider_rate_def own cc sql_round2_def floor_eq_iff)
  have names: "p_Name acme = ''Acme Grocers''" "p_Name busy = ''Busy Bakery''"
    by (simp_all add: acme_def busy_def)
  from query_10_fulfillment_rates [OF pk]
  have "query_10 catalog_db = [(''Busy Bakery'', Some 50), (''Acme Grocers'', Some 0)]"
    by (simp add: ps ne rates names)
  with ps own cc show ?thesis by simp
qed

end
